theory Spec2Isabelle
  imports Complex_Main
begin

section \<open>Shared types (src/types.ts)\<close>

text \<open>
  The enum \<open>AppState\<close> and the interface \<open>HandGestureData\<close>. Coordinates are JavaScript
  numbers; they are modelled as reals, so rounding and NaN are outside the model.
\<close>

datatype AppState = TREE | SCATTER | INSPECT

record position =
  pos_x :: real
  pos_y :: real

record HandGestureData =
  isFist :: bool
  isOpen :: bool
  isPinching :: bool
  isPointing :: bool
  handPosition :: position

section \<open>Gesture classifier (src/components/HandController.tsx)\<close>

text \<open>
  One MediaPipe landmark. The frame \<open>lm\<close> is a JavaScript array (\<open>any[]\<close>): reading
  \<open>lm[i].y\<close> beyond its length dereferences \<open>undefined\<close> and throws a TypeError, which the
  model returns as \<open>Inl TypeError\<close>.
\<close>

record landmark =
  lm_x :: real
  lm_y :: real
  lm_z :: real

datatype error = TypeError

definition landmark_at :: "landmark list \<Rightarrow> nat \<Rightarrow> error + landmark" where
  "landmark_at lm i = (if i < length lm then Inr (lm ! i) else Inl TypeError)"

definition bind_err :: "error + 'a \<Rightarrow> ('a \<Rightarrow> error + 'b) \<Rightarrow> error + 'b" where
  "bind_err m f = (case m of Inl e \<Rightarrow> Inl e | Inr v \<Rightarrow> f v)"

text \<open>\<open>Array.prototype.every\<close>: stops at the first callback that returns false.\<close>

fun every :: "(nat \<Rightarrow> error + bool) \<Rightarrow> nat list \<Rightarrow> error + bool" where
  "every f [] = Inr True"
| "every f (i # is) =
     bind_err (f i) (\<lambda>b. if b then every f is else Inr False)"

definition detectFist :: "landmark list \<Rightarrow> error + bool" where
  "detectFist lm =
     every (\<lambda>tipIdx. bind_err (landmark_at lm tipIdx) (\<lambda>tip.
                     bind_err (landmark_at lm (tipIdx - 2)) (\<lambda>pip.
                     Inr (lm_y tip > lm_y pip))))
           [8, 12, 16, 20]"

definition detectOpenPalm :: "landmark list \<Rightarrow> error + bool" where
  "detectOpenPalm lm =
     every (\<lambda>tipIdx. bind_err (landmark_at lm tipIdx) (\<lambda>tip.
                     bind_err (landmark_at lm (tipIdx - 2)) (\<lambda>pip.
                     Inr (lm_y tip < lm_y pip))))
           [8, 12, 16, 20]"

definition detectPinch :: "landmark list \<Rightarrow> error + bool" where
  "detectPinch lm =
     bind_err (landmark_at lm 8) (\<lambda>l8.
     bind_err (landmark_at lm 4) (\<lambda>l4.
       let dx = lm_x l8 - lm_x l4;
           dy = lm_y l8 - lm_y l4;
           dist = sqrt (dx * dx + dy * dy)
       in Inr (dist < 0.05)))"

definition detectPointing :: "landmark list \<Rightarrow> error + bool" where
  "detectPointing lm =
     bind_err (landmark_at lm 8) (\<lambda>l8. bind_err (landmark_at lm 6) (\<lambda>l6.
     bind_err (landmark_at lm 12) (\<lambda>l12. bind_err (landmark_at lm 10) (\<lambda>l10.
     bind_err (landmark_at lm 16) (\<lambda>l16. bind_err (landmark_at lm 14) (\<lambda>l14.
     bind_err (landmark_at lm 20) (\<lambda>l20. bind_err (landmark_at lm 18) (\<lambda>l18.
       let indexExtended = lm_y l8 < lm_y l6;
           middleFolded = lm_y l12 > lm_y l10;
           ringFolded = lm_y l16 > lm_y l14;
           pinkyFolded = lm_y l20 > lm_y l18
       in Inr (indexExtended \<and> middleFolded \<and> ringFolded \<and> pinkyFolded)))))))))"

text \<open>
  \<open>onResults\<close>: the argument is \<open>results.multiHandLandmarks\<close>, \<open>None\<close> when the property is
  absent (undefined or null). The result is the signal passed to \<open>onGesture\<close>, or the
  error thrown before the call.
\<close>

definition neutralGesture :: HandGestureData where
  "neutralGesture =
     \<lparr>isFist = False, isOpen = False, isPinching = False, isPointing = False,
      handPosition = \<lparr>pos_x = 0.5, pos_y = 0.5\<rparr>\<rparr>"

definition onResults :: "landmark list list option \<Rightarrow> error + HandGestureData" where
  "onResults multiHandLandmarks =
     (case multiHandLandmarks of
        None \<Rightarrow> Inr neutralGesture
      | Some [] \<Rightarrow> Inr neutralGesture
      | Some (landmarks # _) \<Rightarrow>
          bind_err (detectFist landmarks) (\<lambda>isFist'.
          bind_err (detectOpenPalm landmarks) (\<lambda>isOpen'.
          bind_err (detectPinch landmarks) (\<lambda>isPinching'.
          bind_err (detectPointing landmarks) (\<lambda>isPointing'.
          bind_err (landmark_at landmarks 0) (\<lambda>wrist.
          bind_err (landmark_at landmarks 9) (\<lambda>middle.
            let centerX = (lm_x wrist + lm_x middle) / 2;
                centerY = (lm_y wrist + lm_y middle) / 2
            in Inr \<lparr>isFist = isFist', isOpen = isOpen', isPinching = isPinching',
                    isPointing = isPointing',
                    handPosition = \<lparr>pos_x = 1 - centerX, pos_y = centerY\<rparr>\<rparr>)))))))"

section \<open>Interaction state machine (src/App.tsx)\<close>

subsection \<open>Strings: template literals, \<open>split\<close>, \<open>startsWith\<close>, \<open>parseInt\<close>\<close>

text \<open>
  A template literal \<open>`photo-${i}`\<close> prints the integer \<open>i\<close> in decimal, without leading
  zeros and with a minus sign when negative.
\<close>

definition digit_char :: "nat \<Rightarrow> char" where
  "digit_char d = ''0123456789'' ! d"

fun show_nat :: "nat \<Rightarrow> string" where
  "show_nat n = (if n < 10 then [digit_char n]
                 else show_nat (n div 10) @ [digit_char (n mod 10)])"

definition show_int :: "int \<Rightarrow> string" where
  "show_int i = (if i < 0 then CHR ''-'' # show_nat (nat (- i)) else show_nat (nat i))"

definition photo_id :: "int \<Rightarrow> string" where
  "photo_id i = ''photo-'' @ show_int i"

definition startsWith :: "string \<Rightarrow> string \<Rightarrow> bool" where
  "startsWith str pre = (take (length pre) str = pre)"

text \<open>\<open>str.split(c)\<close> for a one-character separator.\<close>

fun splitStr :: "char \<Rightarrow> string \<Rightarrow> string list" where
  "splitStr c [] = [[]]"
| "splitStr c (x # xs) =
     (if x = c then [] # splitStr c xs
      else (case splitStr c xs of [] \<Rightarrow> [[x]] | w # ws \<Rightarrow> (x # w) # ws))"

text \<open>
  \<open>parseInt(str)\<close> with no radix: leading white space is skipped, a sign is read, a
  \<open>0x\<close> prefix selects base 16, and the longest prefix of digits is the value; with no
  digit the result is NaN, here \<open>None\<close>. \<open>parseInt(undefined)\<close> is NaN too.
\<close>

text \<open>
  The white space and line terminators that \<open>parseInt\<close> skips. A \<open>char\<close> here is a code
  unit below 256, so of JavaScript's white space the model has TAB, LF, VT, FF, CR, space
  and U+00A0; the others (U+1680, U+2000 to U+200A, U+2028, U+2029, U+202F, U+205F,
  U+3000, U+FEFF) lie above 255 and cannot occur in a model string.
\<close>

definition isWhiteSpace :: "char \<Rightarrow> bool" where
  "isWhiteSpace c =
     (c \<in> set [CHR '' '', CHR 0x09, CHR 0x0A, CHR 0x0B, CHR 0x0C, CHR 0x0D, CHR 0xA0])"

definition digitValue :: "char \<Rightarrow> nat option" where
  "digitValue c =
     map_of [(CHR ''0'', 0), (CHR ''1'', 1), (CHR ''2'', 2), (CHR ''3'', 3), (CHR ''4'', 4),
             (CHR ''5'', 5), (CHR ''6'', 6), (CHR ''7'', 7), (CHR ''8'', 8), (CHR ''9'', 9),
             (CHR ''a'', 10), (CHR ''b'', 11), (CHR ''c'', 12), (CHR ''d'', 13),
             (CHR ''e'', 14), (CHR ''f'', 15),
             (CHR ''A'', 10), (CHR ''B'', 11), (CHR ''C'', 12), (CHR ''D'', 13),
             (CHR ''E'', 14), (CHR ''F'', 15)] c"

definition isDigitIn :: "nat \<Rightarrow> char \<Rightarrow> bool" where
  "isDigitIn radix c = (case digitValue c of None \<Rightarrow> False | Some v \<Rightarrow> v < radix)"

definition digitsValue :: "nat \<Rightarrow> string \<Rightarrow> nat" where
  "digitsValue radix ds = foldl (\<lambda>acc c. acc * radix + the (digitValue c)) 0 ds"

definition parseInt :: "string option \<Rightarrow> int option" where
  "parseInt arg =
     (case arg of
        None \<Rightarrow> None
      | Some str \<Rightarrow>
          let s1 = dropWhile isWhiteSpace str;
              sign = (if take 1 s1 = ''-'' then - 1 else (1::int));
              s2 = (if take 1 s1 = ''-'' \<or> take 1 s1 = ''+'' then drop 1 s1 else s1);
              hex = (take 2 s2 = ''0x'' \<or> take 2 s2 = ''0X'');
              radix = (if hex then 16 else 10);
              s3 = (if hex then drop 2 s2 else s2);
              ds = takeWhile (isDigitIn radix) s3
          in if ds = [] then None else Some (sign * int (digitsValue radix ds)))"

text \<open>\<open>arr[i]\<close> on an array: \<open>undefined\<close> (here \<open>None\<close>) beyond the end.\<close>

definition index :: "'a list \<Rightarrow> nat \<Rightarrow> 'a option" where
  "index xs i = (if i < length xs then Some (xs ! i) else None)"

definition index_int :: "'a list \<Rightarrow> int \<Rightarrow> 'a option" where
  "index_int xs k = (if 0 \<le> k \<and> k < int (length xs) then Some (xs ! nat k) else None)"

text \<open>\<open>arr.splice(index, 1)\<close>: a negative start counts from the end, and both are clamped.\<close>

definition splice1 :: "int \<Rightarrow> 'a list \<Rightarrow> 'a list" where
  "splice1 idx xs =
     (let len = int (length xs);
          start = (if idx < 0 then max (len + idx) 0 else min idx len)
      in take (nat start) xs @ drop (nat start + 1) xs)"

text \<open>JavaScript truthiness of a \<open>string | null\<close>: null and the empty string are falsy.\<close>

definition truthy :: "string option \<Rightarrow> bool" where
  "truthy v = (case v of None \<Rightarrow> False | Some str \<Rightarrow> str \<noteq> [])"

subsection \<open>The component state\<close>

text \<open>
  The state and refs of \<open>App\<close> that the handlers read or write. \<open>photosRef\<close> and
  \<open>focusIdRef\<close> are refs that two effects copy from \<open>photos\<close> and \<open>focusId\<close> after a render
  (\<open>commitRefs\<close>); between a state change and the next render they hold the older value.
  Times are milliseconds (\<open>Date.now()\<close>). Audio, message and instruction state takes no
  part in the state machine and is left out. The model follows src/App.tsx; the
  repository also holds an earlier variant of the component, without the cooldown, the
  delete confirmation and the pointing memory.
\<close>

record App =
  appState :: AppState
  gestureData :: HandGestureData
  photos :: "string list"
  focusId :: "string option"
  photosRef :: "string list"
  focusIdRef :: "string option"
  wasPointingRef :: bool
  deleteConfirm :: bool
  gestureCooldownRef :: int

definition MAX_PHOTOS :: int where
  "MAX_PHOTOS = 20"

definition initialApp :: App where
  "initialApp =
     \<lparr>appState = TREE, gestureData = neutralGesture, photos = [], focusId = None,
      photosRef = [], focusIdRef = None, wasPointingRef = False, deleteConfirm = False,
      gestureCooldownRef = 0\<rparr>"

definition commitRefs :: "App \<Rightarrow> App" where
  "commitRefs s = s\<lparr>photosRef := photos s, focusIdRef := focusId s\<rparr>"

subsection \<open>Handlers\<close>

text \<open>
  The handlers of this subsection are each handler together with the render that follows
  it, on a state that has no other update pending: the result is the next rendered state.
  The setters of React only queue an update; what happens when a second event arrives
  before the render is modelled in the subsection on batched updates below.

  \<open>handleGesture\<close>, with the clock reading \<open>now\<close> and the value \<open>rnd\<close> of the one
  \<open>Math.random()\<close> call as inputs. The updater passed to \<open>setAppState\<close> runs at the render,
  and with it the \<open>setFocusId\<close> and \<open>setDeleteConfirm\<close> calls inside it.
\<close>

definition handleGesture :: "int \<Rightarrow> real \<Rightarrow> HandGestureData \<Rightarrow> App \<Rightarrow> App" where
  "handleGesture now rnd data s =
     (if now < gestureCooldownRef s then s
      else
        let isFreshPoint = (isPointing data \<and> \<not> wasPointingRef s);
            s1 = s\<lparr>gestureData := data, wasPointingRef := isPointing data\<rparr>;
            prev = appState s
        in if isFist data then
             s1\<lparr>focusId := None, deleteConfirm := False, appState := TREE\<rparr>
           else if isPointing data \<and> length (photosRef s) > 0 then
             (if prev \<noteq> INSPECT \<or> isFreshPoint then
                let randomIdx = \<lfloor>rnd * real (length (photosRef s))\<rfloor>
                in s1\<lparr>focusId := Some (photo_id randomIdx), deleteConfirm := False,
                      appState := INSPECT\<rparr>
              else s1\<lparr>appState := INSPECT\<rparr>)
           else if isOpen data then
             (if prev = INSPECT then
                s1\<lparr>focusId := None, deleteConfirm := False, appState := SCATTER\<rparr>
              else s1\<lparr>appState := SCATTER\<rparr>)
           else if prev = SCATTER \<and> isPinching data \<and> length (photosRef s) > 0 then
             (if \<not> truthy (focusIdRef s) then
                s1\<lparr>focusId := Some ''photo-0'', deleteConfirm := False, appState := INSPECT\<rparr>
              else s1\<lparr>appState := INSPECT\<rparr>)
           else s1)"

text \<open>
  \<open>handleFileUpload\<close>: the argument is the list of object URLs made from
  \<open>e.target.files\<close>, \<open>None\<close> when that is null.
\<close>

definition handleFileUpload :: "string list option \<Rightarrow> App \<Rightarrow> App" where
  "handleFileUpload files s =
     (case files of
        None \<Rightarrow> s
      | Some newFiles \<Rightarrow>
          let remainingSlots = MAX_PHOTOS - int (length (photos s))
          in if remainingSlots \<le> 0 then s
             else s\<lparr>photos := photos s @ take (nat remainingSlots) newFiles\<rparr>)"

definition handlePhotoSelect :: "string \<Rightarrow> App \<Rightarrow> App" where
  "handlePhotoSelect ident s =
     s\<lparr>focusId := Some ident, deleteConfirm := False, appState := INSPECT\<rparr>"

text \<open>
  \<open>handleDeleteClick\<close>. The first click arms the confirmation and schedules
  \<open>deleteTimeout\<close> three seconds later; the second click deletes. The handler is a closure
  of the last render and reads \<open>deleteConfirm\<close>, \<open>focusId\<close> and \<open>photos\<close> as rendered; here
  that is the state \<open>s\<close>, every earlier event having been rendered.
\<close>

definition handleDeleteClick :: "int \<Rightarrow> App \<Rightarrow> App" where
  "handleDeleteClick now s =
     (if \<not> deleteConfirm s then s\<lparr>deleteConfirm := True\<rparr>
      else
        (case focusId s of
           None \<Rightarrow> s
         | Some fid \<Rightarrow>
             if fid \<noteq> [] \<and> startsWith fid ''photo-'' then
               (case parseInt (index (splitStr CHR ''-'' fid) 1) of
                  None \<Rightarrow> s
                | Some idx \<Rightarrow>
                    s\<lparr>photos := splice1 idx (photos s), focusId := None,
                      deleteConfirm := False, appState := SCATTER,
                      gestureCooldownRef := now + 2000\<rparr>)
             else s))"

definition deleteTimeout :: "App \<Rightarrow> App" where
  "deleteTimeout s = s\<lparr>deleteConfirm := False\<rparr>"

definition handleCloseInspect :: "int \<Rightarrow> App \<Rightarrow> App" where
  "handleCloseInspect now s =
     s\<lparr>focusId := None, appState := SCATTER, deleteConfirm := False,
       gestureCooldownRef := now + 1000\<rparr>"

subsection \<open>Runs of the state machine\<close>

text \<open>
  Everything that can happen to the state: a capture tick, a click on a photo panel, the
  delete and close buttons, the confirmation timeout, an upload, and a render. In \<open>step\<close>
  every event is rendered before the next one arrives, so an event takes a rendered state
  to the next rendered state, and \<open>Render\<close> has only the effects left to run, which copy
  the state into the refs.
\<close>

datatype event =
    Gesture int real HandGestureData
  | PhotoSelect string
  | DeleteClick int
  | DeleteTimeout
  | CloseInspect int
  | FileUpload "string list option"
  | Render

fun step :: "App \<Rightarrow> event \<Rightarrow> App" where
  "step s (Gesture now rnd data) = handleGesture now rnd data s"
| "step s (PhotoSelect ident) = handlePhotoSelect ident s"
| "step s (DeleteClick now) = handleDeleteClick now s"
| "step s DeleteTimeout = deleteTimeout s"
| "step s (CloseInspect now) = handleCloseInspect now s"
| "step s (FileUpload files) = handleFileUpload files s"
| "step s Render = commitRefs s"

definition run :: "event list \<Rightarrow> App \<Rightarrow> App" where
  "run es s = foldl step s es"

subsection \<open>Batched updates\<close>

text \<open>
  A setter of React does not change the state: it queues an update, and the next render
  applies each queue in order. An update is a value or, for \<open>setAppState\<close> in
  \<open>handleGesture\<close> and \<open>setPhotos\<close> in \<open>handleFileUpload\<close>, an updater function of the
  previous value. The updater of \<open>handleGesture\<close> has captured \<open>data\<close> and \<open>isFreshPoint\<close>;
  \<open>rnd\<close> is the draw its \<open>Math.random()\<close> call will make.
\<close>

datatype appStateUpdate = SetAppState AppState | GestureUpdater HandGestureData bool real

datatype photosUpdate = SetPhotos "string list" | AppendPhotos "string list"

text \<open>
  The rendered state and the refs (\<open>current\<close>; the refs \<open>wasPointingRef\<close> and
  \<open>gestureCooldownRef\<close> are written at once, not queued), and the queue of each state
  variable.
\<close>

record Batch =
  current :: App
  appStateQueue :: "appStateUpdate list"
  gestureDataQueue :: "HandGestureData list"
  photosQueue :: "photosUpdate list"
  focusIdQueue :: "string option list"
  deleteConfirmQueue :: "bool list"

definition settled :: "App \<Rightarrow> Batch" where
  "settled s =
     \<lparr>current = s, appStateQueue = [], gestureDataQueue = [], photosQueue = [],
      focusIdQueue = [], deleteConfirmQueue = []\<rparr>"

text \<open>
  The body of the updater of \<open>handleGesture\<close> (App.tsx, lines 155 to 193), run at a render
  on the previous mode \<open>prev\<close> with the refs as they are then: the new mode, and the
  arguments of the \<open>setFocusId\<close> and \<open>setDeleteConfirm\<close> calls it makes.
\<close>

definition gestureUpdater ::
  "HandGestureData \<Rightarrow> bool \<Rightarrow> real \<Rightarrow> string list \<Rightarrow> string option \<Rightarrow> AppState
     \<Rightarrow> AppState \<times> string option list \<times> bool list" where
  "gestureUpdater data isFreshPoint rnd photosRefCurrent focusIdRefCurrent prev =
     (if isFist data then (TREE, [None], [False])
      else if isPointing data \<and> length photosRefCurrent > 0 then
        (if prev \<noteq> INSPECT \<or> isFreshPoint then
           let randomIdx = \<lfloor>rnd * real (length photosRefCurrent)\<rfloor>
           in (INSPECT, [Some (photo_id randomIdx)], [False])
         else (INSPECT, [], []))
      else if isOpen data then
        (if prev = INSPECT then (SCATTER, [None], [False]) else (SCATTER, [], []))
      else if prev = SCATTER \<and> isPinching data \<and> length photosRefCurrent > 0 then
        (if \<not> truthy focusIdRefCurrent then (INSPECT, [Some ''photo-0''], [False])
         else (INSPECT, [], []))
      else (prev, [], []))"

text \<open>
  The render works the \<open>appState\<close> queue off in order. The setter calls an updater makes
  are queued behind everything the handlers queued before the render.
\<close>

fun runAppStateQueue ::
  "string list \<Rightarrow> string option \<Rightarrow> appStateUpdate list \<Rightarrow> AppState
     \<Rightarrow> AppState \<times> string option list \<times> bool list" where
  "runAppStateQueue pr fr [] prev = (prev, [], [])"
| "runAppStateQueue pr fr (SetAppState m # us) prev = runAppStateQueue pr fr us m"
| "runAppStateQueue pr fr (GestureUpdater data fresh rnd # us) prev =
     (case gestureUpdater data fresh rnd pr fr prev of
        (m, fs, cs) \<Rightarrow>
          (case runAppStateQueue pr fr us m of
             (m', fs', cs') \<Rightarrow> (m', fs @ fs', cs @ cs')))"

fun applyPhotos :: "string list \<Rightarrow> photosUpdate \<Rightarrow> string list" where
  "applyPhotos prev (SetPhotos ps) = ps"
| "applyPhotos prev (AppendPhotos ps) = prev @ ps"

definition lastOr :: "'a \<Rightarrow> 'a list \<Rightarrow> 'a" where
  "lastOr d xs = (if xs = [] then d else last xs)"

text \<open>A render: every queue is applied and emptied, then the effects refresh the refs.\<close>

definition render :: "Batch \<Rightarrow> Batch" where
  "render b =
     (let s = current b
      in case runAppStateQueue (photosRef s) (focusIdRef s) (appStateQueue b) (appState s) of
           (mode, fs, cs) \<Rightarrow>
             settled (commitRefs
               (s\<lparr>appState := mode,
                  gestureData := lastOr (gestureData s) (gestureDataQueue b),
                  photos := foldl applyPhotos (photos s) (photosQueue b),
                  focusId := lastOr (focusId s) (focusIdQueue b @ fs),
                  deleteConfirm := lastOr (deleteConfirm s) (deleteConfirmQueue b @ cs)\<rparr>)))"

text \<open>
  The handlers as they run at the event: refs are read and written at once, state is read
  as last rendered (\<open>current\<close>), and setters append to the queues.
\<close>

definition handleGestureQ :: "int \<Rightarrow> real \<Rightarrow> HandGestureData \<Rightarrow> Batch \<Rightarrow> Batch" where
  "handleGestureQ now rnd data b =
     (if now < gestureCooldownRef (current b) then b
      else
        let isFreshPoint = (isPointing data \<and> \<not> wasPointingRef (current b))
        in b\<lparr>current := (current b)\<lparr>wasPointingRef := isPointing data\<rparr>,
             gestureDataQueue := gestureDataQueue b @ [data],
             appStateQueue := appStateQueue b @ [GestureUpdater data isFreshPoint rnd]\<rparr>)"

definition handleFileUploadQ :: "string list option \<Rightarrow> Batch \<Rightarrow> Batch" where
  "handleFileUploadQ files b =
     (case files of
        None \<Rightarrow> b
      | Some newFiles \<Rightarrow>
          let remainingSlots = MAX_PHOTOS - int (length (photos (current b)))
          in if remainingSlots \<le> 0 then b
             else b\<lparr>photosQueue :=
                      photosQueue b @ [AppendPhotos (take (nat remainingSlots) newFiles)]\<rparr>)"

definition handlePhotoSelectQ :: "string \<Rightarrow> Batch \<Rightarrow> Batch" where
  "handlePhotoSelectQ ident b =
     b\<lparr>focusIdQueue := focusIdQueue b @ [Some ident],
       deleteConfirmQueue := deleteConfirmQueue b @ [False],
       appStateQueue := appStateQueue b @ [SetAppState INSPECT]\<rparr>"

definition handleDeleteClickQ :: "int \<Rightarrow> Batch \<Rightarrow> Batch" where
  "handleDeleteClickQ now b =
     (if \<not> deleteConfirm (current b) then
        b\<lparr>deleteConfirmQueue := deleteConfirmQueue b @ [True]\<rparr>
      else
        (case focusId (current b) of
           None \<Rightarrow> b
         | Some fid \<Rightarrow>
             if fid \<noteq> [] \<and> startsWith fid ''photo-'' then
               (case parseInt (index (splitStr CHR ''-'' fid) 1) of
                  None \<Rightarrow> b
                | Some idx \<Rightarrow>
                    b\<lparr>photosQueue :=
                        photosQueue b @ [SetPhotos (splice1 idx (photos (current b)))],
                      focusIdQueue := focusIdQueue b @ [None],
                      deleteConfirmQueue := deleteConfirmQueue b @ [False],
                      appStateQueue := appStateQueue b @ [SetAppState SCATTER],
                      current := (current b)\<lparr>gestureCooldownRef := now + 2000\<rparr>\<rparr>)
             else b))"

definition deleteTimeoutQ :: "Batch \<Rightarrow> Batch" where
  "deleteTimeoutQ b = b\<lparr>deleteConfirmQueue := deleteConfirmQueue b @ [False]\<rparr>"

definition handleCloseInspectQ :: "int \<Rightarrow> Batch \<Rightarrow> Batch" where
  "handleCloseInspectQ now b =
     b\<lparr>focusIdQueue := focusIdQueue b @ [None],
       appStateQueue := appStateQueue b @ [SetAppState SCATTER],
       deleteConfirmQueue := deleteConfirmQueue b @ [False],
       current := (current b)\<lparr>gestureCooldownRef := now + 1000\<rparr>\<rparr>"

text \<open>
  Runs in which events and renders come in any order: an event only queues, and \<open>Render\<close>
  is a render.
\<close>

fun dispatch :: "Batch \<Rightarrow> event \<Rightarrow> Batch" where
  "dispatch b (Gesture now rnd data) = handleGestureQ now rnd data b"
| "dispatch b (PhotoSelect ident) = handlePhotoSelectQ ident b"
| "dispatch b (DeleteClick now) = handleDeleteClickQ now b"
| "dispatch b DeleteTimeout = deleteTimeoutQ b"
| "dispatch b (CloseInspect now) = handleCloseInspectQ now b"
| "dispatch b (FileUpload files) = handleFileUploadQ files b"
| "dispatch b Render = render b"

definition runBatched :: "event list \<Rightarrow> Batch \<Rightarrow> Batch" where
  "runBatched es b = foldl dispatch b es"

section \<open>Layout generator (src/components/MagicScene.tsx)\<close>

record Vector3 =
  vx :: real
  vy :: real
  vz :: real

datatype ItemType = sphere | box | photo | star

text \<open>
  \<open>SceneItem\<close>. A \<open>THREE.Color\<close> is kept as the hex string it was made from; the optional
  fields are options.
\<close>

record SceneItem =
  item_id :: string
  item_type :: ItemType
  treePos :: Vector3
  scatterPos :: Vector3
  rotation :: Vector3
  color :: "string option"
  textureUrl :: "string option"
  item_scale :: real

definition TREE_HEIGHT :: real where "TREE_HEIGHT = 16"
definition TREE_RADIUS_BASE :: real where "TREE_RADIUS_BASE = 6.0"
definition ORNAMENT_COUNT :: nat where "ORNAMENT_COUNT = 300"
definition FOIL_COUNT :: nat where "FOIL_COUNT = 200"
definition RIBBON_PARTICLE_COUNT :: nat where "RIBBON_PARTICLE_COUNT = 400"
definition LIGHT_COUNT :: nat where "LIGHT_COUNT = 100"
definition SCATTER_RADIUS_X :: real where "SCATTER_RADIUS_X = 45"
definition SCATTER_RADIUS_Y :: real where "SCATTER_RADIUS_Y = 25"
definition SCATTER_RADIUS_Z :: real where "SCATTER_RADIUS_Z = 20"

definition PALETTE_RED :: string where "PALETTE_RED = ''#C41E3A''"
definition PALETTE_METALLIC_GOLD :: string where "PALETTE_METALLIC_GOLD = ''#CFB53B''"
definition PALETTE_SILVER :: string where "PALETTE_SILVER = ''#E0E0E0''"
definition PALETTE_GREEN :: string where "PALETTE_GREEN = ''#1B4D3E''"
definition PALETTE_CREAM :: string where "PALETTE_CREAM = ''#F2E8C9''"
definition PALETTE_LIGHT_WARM :: string where "PALETTE_LIGHT_WARM = ''#ffddaa''"
definition PALETTE_DEEP_BLUE :: string where "PALETTE_DEEP_BLUE = ''#0033FF''"

definition goldenAngle :: real where
  "goldenAngle = pi * (3 - sqrt 5)"

definition layers :: real where
  "layers = 5"

text \<open>The remainder operator \<open>a % b\<close> on numbers: the quotient is truncated towards zero.\<close>

definition js_rem :: "real \<Rightarrow> real \<Rightarrow> real" where
  "js_rem a b = a - b * of_int (if a / b < 0 then \<lceil>a / b\<rceil> else \<lfloor>a / b\<rfloor>)"

text \<open>
  The five loops of \<open>items\<close>. Every \<open>Math.random()\<close> result is an input: \<open>rnd k\<close> is the
  value of the \<open>k\<close>-th call, in the order the loops make them (nine per ornament, ten per
  foil flake, three per ribbon particle and per light).
\<close>

definition ornament :: "(nat \<Rightarrow> real) \<Rightarrow> nat \<Rightarrow> SceneItem" where
  "ornament rnd i =
     (let c = 9 * i;
          h_norm = real i / real ORNAMENT_COUNT;
          h = h_norm * TREE_HEIGHT - (TREE_HEIGHT / 2);
          layerPhase = js_rem (h_norm * layers) 1;
          baseRadius = (1 - h_norm) * TREE_RADIUS_BASE;
          layerKick = (1 - layerPhase) * 1.5;
          r = baseRadius + layerKick;
          theta = real i * goldenAngle;
          colors = [PALETTE_RED, PALETTE_GREEN, PALETTE_METALLIC_GOLD, PALETTE_SILVER]
      in \<lparr>item_id = ''ornament-'' @ show_int (int i),
          item_type = (if rnd (c + 3) > 0.6 then box else sphere),
          treePos = \<lparr>vx = r * cos theta, vy = h, vz = r * sin theta\<rparr>,
          scatterPos = \<lparr>vx = (rnd c - 0.5) * SCATTER_RADIUS_X * 2,
                        vy = (rnd (c + 1) - 0.5) * SCATTER_RADIUS_Y * 2,
                        vz = (rnd (c + 2) - 0.5) * SCATTER_RADIUS_Z * 2\<rparr>,
          rotation = \<lparr>vx = rnd (c + 4), vy = rnd (c + 5), vz = rnd (c + 6)\<rparr>,
          color = index_int colors \<lfloor>rnd (c + 7) * real (length colors)\<rfloor>,
          textureUrl = None,
          item_scale = rnd (c + 8) * 0.6 + 0.3\<rparr>)"

definition foil :: "(nat \<Rightarrow> real) \<Rightarrow> nat \<Rightarrow> SceneItem" where
  "foil rnd i =
     (let c = 9 * ORNAMENT_COUNT + 10 * i;
          h_norm = real i / real FOIL_COUNT;
          h = h_norm * TREE_HEIGHT - (TREE_HEIGHT / 2) + (rnd c * 2 - 1);
          baseRadius = (1 - h_norm) * TREE_RADIUS_BASE;
          r = baseRadius + (rnd (c + 1) * 1.5) + 0.5;
          theta = real i * goldenAngle * 2
      in \<lparr>item_id = ''foil-'' @ show_int (int i),
          item_type = box,
          treePos = \<lparr>vx = r * cos theta, vy = h, vz = r * sin theta\<rparr>,
          scatterPos = \<lparr>vx = (rnd (c + 2) - 0.5) * SCATTER_RADIUS_X * 2.2,
                        vy = (rnd (c + 3) - 0.5) * SCATTER_RADIUS_Y * 2.2,
                        vz = (rnd (c + 4) - 0.5) * SCATTER_RADIUS_Z * 1.5\<rparr>,
          rotation = \<lparr>vx = rnd (c + 5), vy = rnd (c + 6), vz = rnd (c + 7)\<rparr>,
          color = Some (if rnd (c + 8) > 0.4 then PALETTE_METALLIC_GOLD else PALETTE_SILVER),
          textureUrl = None,
          item_scale = rnd (c + 9) * 0.4 + 0.2\<rparr>)"

definition ribbonSpirals :: real where "ribbonSpirals = 5"
definition braidFreq :: real where "braidFreq = 30"
definition braidAmp :: real where "braidAmp = 0.4"

definition ribbonWhite :: "(nat \<Rightarrow> real) \<Rightarrow> nat \<Rightarrow> SceneItem" where
  "ribbonWhite rnd i =
     (let c = 9 * ORNAMENT_COUNT + 10 * FOIL_COUNT + 3 * i;
          t = real i / real RIBBON_PARTICLE_COUNT;
          h = (t * TREE_HEIGHT) - (TREE_HEIGHT / 2);
          layerPhase = js_rem (t * layers) 1;
          baseRadius = (1 - t) * TREE_RADIUS_BASE;
          layerKick = (1 - layerPhase) * 1.8;
          r = baseRadius + layerKick + 1.3;
          baseTheta = t * pi * 2 * ribbonSpirals;
          theta = baseTheta + sin (t * braidFreq) * braidAmp
      in \<lparr>item_id = ''ribbon-white-'' @ show_int (int i),
          item_type = box,
          treePos = \<lparr>vx = r * cos theta, vy = h, vz = r * sin theta\<rparr>,
          scatterPos = \<lparr>vx = (rnd c - 0.5) * SCATTER_RADIUS_X * 2.5,
                        vy = (rnd (c + 1) - 0.5) * SCATTER_RADIUS_Y * 2,
                        vz = (rnd (c + 2) - 0.5) * SCATTER_RADIUS_Z\<rparr>,
          rotation = \<lparr>vx = t, vy = t, vz = 0\<rparr>,
          color = Some ''#FFFFFF'',
          textureUrl = None,
          item_scale = 0.28\<rparr>)"

definition ribbonBlue :: "(nat \<Rightarrow> real) \<Rightarrow> nat \<Rightarrow> SceneItem" where
  "ribbonBlue rnd i =
     (let c = 9 * ORNAMENT_COUNT + 10 * FOIL_COUNT + 3 * RIBBON_PARTICLE_COUNT + 3 * i;
          t = real i / real RIBBON_PARTICLE_COUNT;
          h = (t * TREE_HEIGHT) - (TREE_HEIGHT / 2);
          layerPhase = js_rem (t * layers) 1;
          baseRadius = (1 - t) * TREE_RADIUS_BASE;
          layerKick = (1 - layerPhase) * 1.8;
          r = baseRadius + layerKick + 0.5;
          baseTheta = t * pi * 2 * ribbonSpirals;
          theta = baseTheta - sin (t * braidFreq) * braidAmp
      in \<lparr>item_id = ''ribbon-blue-'' @ show_int (int i),
          item_type = box,
          treePos = \<lparr>vx = r * cos theta, vy = h, vz = r * sin theta\<rparr>,
          scatterPos = \<lparr>vx = (rnd c - 0.5) * SCATTER_RADIUS_X * 2.5,
                        vy = (rnd (c + 1) - 0.5) * SCATTER_RADIUS_Y * 2,
                        vz = (rnd (c + 2) - 0.5) * SCATTER_RADIUS_Z\<rparr>,
          rotation = \<lparr>vx = t, vy = t, vz = 10\<rparr>,
          color = Some PALETTE_DEEP_BLUE,
          textureUrl = None,
          item_scale = 0.3\<rparr>)"

definition lightSpirals :: real where "lightSpirals = 4"

definition light :: "(nat \<Rightarrow> real) \<Rightarrow> nat \<Rightarrow> SceneItem" where
  "light rnd i =
     (let c = 9 * ORNAMENT_COUNT + 10 * FOIL_COUNT + 6 * RIBBON_PARTICLE_COUNT + 3 * i;
          t = real i / real LIGHT_COUNT;
          h = (t * TREE_HEIGHT) - (TREE_HEIGHT / 2);
          layerPhase = js_rem (t * layers) 1;
          baseRadius = (1 - t) * TREE_RADIUS_BASE;
          layerKick = (1 - layerPhase) * 1.6;
          r = baseRadius + layerKick + 0.2;
          theta = (t * pi * 2 * lightSpirals) + pi
      in \<lparr>item_id = ''light-'' @ show_int (int i),
          item_type = sphere,
          treePos = \<lparr>vx = r * cos theta, vy = h, vz = r * sin theta\<rparr>,
          scatterPos = \<lparr>vx = (rnd c - 0.5) * SCATTER_RADIUS_X * 2,
                        vy = (rnd (c + 1) - 0.5) * SCATTER_RADIUS_Y * 2,
                        vz = (rnd (c + 2) - 0.5) * SCATTER_RADIUS_Z\<rparr>,
          rotation = \<lparr>vx = 0, vy = 0, vz = 0\<rparr>,
          color = Some PALETTE_LIGHT_WARM,
          textureUrl = None,
          item_scale = 0.2\<rparr>)"

definition items :: "(nat \<Rightarrow> real) \<Rightarrow> SceneItem list" where
  "items rnd =
     map (ornament rnd) [0..<ORNAMENT_COUNT]
     @ map (foil rnd) [0..<FOIL_COUNT]
     @ map (ribbonWhite rnd) [0..<RIBBON_PARTICLE_COUNT]
     @ map (ribbonBlue rnd) [0..<RIBBON_PARTICLE_COUNT]
     @ map (light rnd) [0..<LIGHT_COUNT]"

text \<open>
  The callback of \<open>photos.map\<close> in \<open>allItems\<close>, for the photo \<open>url\<close> at index \<open>i\<close> of a
  collection of \<open>n\<close> photos; \<open>rnd i\<close> is the one random draw of that call.
  \<open>photos.length || 1\<close> is 1 for an empty collection.
\<close>

definition photoItem :: "nat \<Rightarrow> (nat \<Rightarrow> real) \<Rightarrow> nat \<Rightarrow> string \<Rightarrow> SceneItem" where
  "photoItem n rnd i url =
     (let len1 = (if n = 0 then 1 else real n);
          h = (real i / len1) * (TREE_HEIGHT * 0.8) - (TREE_HEIGHT / 3);
          r = (1 - ((h + TREE_HEIGHT / 2) / TREE_HEIGHT)) * (TREE_RADIUS_BASE + 2);
          theta = real i * (pi * 2 / len1) + 1;
          scatterRadius = 12;
          scatterAngle = (real i / len1) * pi * 2
      in \<lparr>item_id = photo_id (int i),
          item_type = photo,
          treePos = \<lparr>vx = r * cos theta, vy = h, vz = r * sin theta\<rparr>,
          scatterPos = \<lparr>vx = cos scatterAngle * scatterRadius,
                        vy = (rnd i - 0.5) * 16,
                        vz = sin scatterAngle * scatterRadius\<rparr>,
          rotation = \<lparr>vx = 0, vy = 0, vz = 0\<rparr>,
          color = Some PALETTE_CREAM,
          textureUrl = Some url,
          item_scale = 1\<rparr>)"

text \<open>
  \<open>allItems\<close>: \<open>its\<close> is the memoised value of \<open>items\<close>, computed once at mount; the photo
  items are rebuilt whenever \<open>photos\<close> changes.
\<close>

definition photoItems :: "string list \<Rightarrow> (nat \<Rightarrow> real) \<Rightarrow> SceneItem list" where
  "photoItems photos' rnd =
     map (\<lambda>i. photoItem (length photos') rnd i (photos' ! i)) [0..<length photos']"

definition allItems :: "SceneItem list \<Rightarrow> string list \<Rightarrow> (nat \<Rightarrow> real) \<Rightarrow> SceneItem list" where
  "allItems its photos' rnd = its @ photoItems photos' rnd"

section \<open>Blend engine (\<open>MagicItem\<close> in src/components/MagicScene.tsx)\<close>

text \<open>\<open>Vector3\<close> methods of three.js: \<open>lerp\<close> moves each component by \<open>(v - this) * alpha\<close>.\<close>

definition lerp :: "Vector3 \<Rightarrow> Vector3 \<Rightarrow> real \<Rightarrow> Vector3" where
  "lerp p v alpha =
     \<lparr>vx = vx p + (vx v - vx p) * alpha,
      vy = vy p + (vy v - vy p) * alpha,
      vz = vz p + (vz v - vz p) * alpha\<rparr>"

definition multiplyScalar :: "Vector3 \<Rightarrow> real \<Rightarrow> Vector3" where
  "multiplyScalar v k = \<lparr>vx = vx v * k, vy = vy v * k, vz = vz v * k\<rparr>"

definition distanceTo :: "Vector3 \<Rightarrow> Vector3 \<Rightarrow> real" where
  "distanceTo p v = sqrt ((vx p - vx v)\<^sup>2 + (vy p - vy v)\<^sup>2 + (vz p - vz v)\<^sup>2)"

text \<open>The target position chosen at the start of the frame callback.\<close>

definition targetPos :: "SceneItem \<Rightarrow> AppState \<Rightarrow> string option \<Rightarrow> Vector3" where
  "targetPos item targetMode focus =
     (if targetMode = SCATTER then scatterPos item
      else if targetMode = INSPECT then
        (if item_type item = photo then
           (if focus = Some (item_id item) then \<lparr>vx = 0, vy = 0, vz = 15\<rparr>
            else (let t = multiplyScalar (scatterPos item) 1.2 in t\<lparr>vz := vz t - 10\<rparr>))
         else scatterPos item)
      else treePos item)"

text \<open>
  What one frame does to the live position \<open>p\<close>: the blend step towards the target and,
  in SCATTER mode, the noise added after it. \<open>time\<close> is the clock's elapsed time,
  \<open>randomOffset\<close> the item's phase, \<open>delta\<close> the frame's elapsed seconds.
\<close>

definition blendStep :: "Vector3 \<Rightarrow> real \<Rightarrow> Vector3 \<Rightarrow> Vector3" where
  "blendStep target delta p = lerp p target (delta * 3.0)"

definition framePosition ::
  "SceneItem \<Rightarrow> AppState \<Rightarrow> string option \<Rightarrow> real \<Rightarrow> real \<Rightarrow> real \<Rightarrow> Vector3 \<Rightarrow> Vector3" where
  "framePosition item targetMode focus randomOffset time delta p =
     (let p1 = blendStep (targetPos item targetMode focus) delta p
      in if targetMode = SCATTER then
           p1\<lparr>vy := vy p1 + sin (time + randomOffset) * 0.02,
              vx := vx p1 + cos (time * 0.5 + randomOffset) * 0.02\<rparr>
         else p1)"

section \<open>Sample inputs\<close>

text \<open>
  A frame of 21 landmarks with the four fingertips (8, 12, 16, 20) below their PIP joints
  and the thumb tip (4) on the index tip: a fist that also pinches.
\<close>

definition fistFrame :: "landmark list" where
  "fistFrame = (replicate 21 \<lparr>lm_x = 0.5, lm_y = 0.5, lm_z = 0\<rparr>)
     [4 := \<lparr>lm_x = 0.5, lm_y = 0.6, lm_z = 0\<rparr>,
      8 := \<lparr>lm_x = 0.5, lm_y = 0.6, lm_z = 0\<rparr>,
      12 := \<lparr>lm_x = 0.5, lm_y = 0.6, lm_z = 0\<rparr>,
      16 := \<lparr>lm_x = 0.5, lm_y = 0.6, lm_z = 0\<rparr>,
      20 := \<lparr>lm_x = 0.5, lm_y = 0.6, lm_z = 0\<rparr>]"

definition fistSignal :: HandGestureData where
  "fistSignal = \<lparr>isFist = True, isOpen = False, isPinching = True, isPointing = False,
                 handPosition = \<lparr>pos_x = 0.5, pos_y = 0.5\<rparr>\<rparr>"

definition allFlagsSignal :: HandGestureData where
  "allFlagsSignal = \<lparr>isFist = True, isOpen = True, isPinching = True, isPointing = True,
                     handPosition = \<lparr>pos_x = 0.5, pos_y = 0.5\<rparr>\<rparr>"

definition pointSignal :: HandGestureData where
  "pointSignal = \<lparr>isFist = False, isOpen = False, isPinching = False, isPointing = True,
                  handPosition = \<lparr>pos_x = 0.5, pos_y = 0.5\<rparr>\<rparr>"

definition pinchSignal :: HandGestureData where
  "pinchSignal = \<lparr>isFist = False, isOpen = False, isPinching = True, isPointing = False,
                  handPosition = \<lparr>pos_x = 0.5, pos_y = 0.5\<rparr>\<rparr>"

text \<open>
  Three states of a session: three photos uploaded and rendered; then the second photo
  clicked and the delete button armed; then the inspect view closed at time 0, which
  sets the cooldown deadline to 1000.
\<close>

definition photosApp :: App where
  "photosApp = run [FileUpload (Some [''a.png'', ''b.png'', ''c.png'']), Render] initialApp"

definition inspectApp :: App where
  "inspectApp = run [PhotoSelect ''photo-1'', Render, DeleteClick 0] photosApp"

definition closedApp :: App where
  "closedApp = run [CloseInspect 0, Render] inspectApp"

text \<open>The state after a first pointing tick on \<open>photosApp\<close>, with the draw 1/2.\<close>

definition pointedApp :: App where
  "pointedApp = handleGesture 0 (1/2) pointSignal photosApp"

text \<open>
  A session in which a second event arrives before the render. With three photos on
  screen the second one is clicked and rendered (\<open>selectedBatch\<close>); then a pointing tick
  arrives at time 0, the Close button is clicked at time 5, and only then React renders
  (\<open>racedBatch\<close>).
\<close>

definition selectedBatch :: Batch where
  "selectedBatch =
     runBatched [FileUpload (Some [''a.png'', ''b.png'', ''c.png'']), Render,
                 PhotoSelect ''photo-1'', Render] (settled initialApp)"

definition racedBatch :: Batch where
  "racedBatch = runBatched [Gesture 0 (9/10) pointSignal, CloseInspect 5, Render] selectedBatch"

text \<open>The first light of the strip, generated with every draw equal to 1/2.\<close>

definition sampleLight :: SceneItem where
  "sampleLight = light (\<lambda>k. 1/2) 0"

section \<open>Properties of the classifier\<close>

lemma bind_err_Inr_iff:
  "bind_err m f = Inr v \<longleftrightarrow> (\<exists>a. m = Inr a \<and> f a = Inr v)"
  by (cases m) (simp_all add: bind_err_def)

text \<open>A detector that answers true has read all 21 landmarks and seen its inequalities.\<close>

lemma detectFist_True:
  assumes "detectFist lm = Inr True"
  shows "20 < length lm \<and> lm_y (lm ! 8) > lm_y (lm ! 6) \<and> lm_y (lm ! 12) > lm_y (lm ! 10)
         \<and> lm_y (lm ! 16) > lm_y (lm ! 14) \<and> lm_y (lm ! 20) > lm_y (lm ! 18)"
  using assms
  by (auto simp: detectFist_def bind_err_Inr_iff landmark_at_def split: if_splits)

lemma detectOpenPalm_True:
  assumes "detectOpenPalm lm = Inr True"
  shows "20 < length lm \<and> lm_y (lm ! 8) < lm_y (lm ! 6) \<and> lm_y (lm ! 12) < lm_y (lm ! 10)
         \<and> lm_y (lm ! 16) < lm_y (lm ! 14) \<and> lm_y (lm ! 20) < lm_y (lm ! 18)"
  using assms
  by (auto simp: detectOpenPalm_def bind_err_Inr_iff landmark_at_def split: if_splits)

lemma detectPointing_True:
  assumes "detectPointing lm = Inr True"
  shows "20 < length lm \<and> lm_y (lm ! 8) < lm_y (lm ! 6) \<and> lm_y (lm ! 12) > lm_y (lm ! 10)
         \<and> lm_y (lm ! 16) > lm_y (lm ! 14) \<and> lm_y (lm ! 20) > lm_y (lm ! 18)"
  using assms
  by (auto simp: detectPointing_def bind_err_Inr_iff landmark_at_def Let_def split: if_splits)

lemma onResults_flags:
  assumes "onResults (Some (lm # rest)) = Inr g"
  shows "detectFist lm = Inr (isFist g) \<and> detectOpenPalm lm = Inr (isOpen g)
         \<and> detectPointing lm = Inr (isPointing g)"
  using assms by (auto simp: onResults_def bind_err_Inr_iff Let_def)

lemma detectFist_fistFrame: "detectFist fistFrame = Inr True"
  by (simp add: detectFist_def fistFrame_def landmark_at_def bind_err_def)

lemma detectOpenPalm_fistFrame: "detectOpenPalm fistFrame = Inr False"
  by (simp add: detectOpenPalm_def fistFrame_def landmark_at_def bind_err_def)

lemma detectPinch_fistFrame: "detectPinch fistFrame = Inr True"
  by (simp add: detectPinch_def fistFrame_def landmark_at_def bind_err_def)

lemma detectPointing_fistFrame: "detectPointing fistFrame = Inr False"
  by (simp add: detectPointing_def fistFrame_def landmark_at_def bind_err_def)

lemma wrist_fistFrame: "landmark_at fistFrame 0 = Inr \<lparr>lm_x = 0.5, lm_y = 0.5, lm_z = 0\<rparr>"
  by (simp add: fistFrame_def landmark_at_def)

lemma middle_fistFrame: "landmark_at fistFrame 9 = Inr \<lparr>lm_x = 0.5, lm_y = 0.5, lm_z = 0\<rparr>"
  by (simp add: fistFrame_def landmark_at_def)

lemma onResults_fistFrame: "onResults (Some [fistFrame]) = Inr fistSignal"
  by (simp add: onResults_def detectFist_fistFrame detectOpenPalm_fistFrame
        detectPinch_fistFrame detectPointing_fistFrame wrist_fistFrame middle_fistFrame
        bind_err_def fistSignal_def)

text \<open>
  Claim C9. When no hand is detected, that is when \<open>multiHandLandmarks\<close> is absent or
  empty, \<open>onResults\<close> raises nothing and emits the signal with all four flags false and
  the hand position (0.5, 0.5).
\<close>

theorem no_hand_neutral_signal:
  "onResults None =
     Inr \<lparr>isFist = False, isOpen = False, isPinching = False, isPointing = False,
          handPosition = \<lparr>pos_x = 0.5, pos_y = 0.5\<rparr>\<rparr>
   \<and> onResults (Some []) =
     Inr \<lparr>isFist = False, isOpen = False, isPinching = False, isPointing = False,
          handPosition = \<lparr>pos_x = 0.5, pos_y = 0.5\<rparr>\<rparr>"
  by (simp add: onResults_def neutralGesture_def)

theorem no_hand_neutral_signal_witness:
  "onResults None = Inr neutralGesture \<and> onResults (Some []) = Inr neutralGesture"
  using no_hand_neutral_signal by (simp add: neutralGesture_def)

text \<open>
  Claim C10. For every landmark frame, at most one of the flags \<open>isFist\<close>, \<open>isOpen\<close> and
  \<open>isPointing\<close> is true: no two of the detectors answer true on the same frame, and so no
  signal that \<open>onResults\<close> emits has two of the three flags set.
\<close>

theorem classifier_flags_exclusive:
  "\<not> (detectFist lm = Inr True \<and> detectOpenPalm lm = Inr True)
   \<and> \<not> (detectFist lm = Inr True \<and> detectPointing lm = Inr True)
   \<and> \<not> (detectOpenPalm lm = Inr True \<and> detectPointing lm = Inr True)
   \<and> (onResults mhl = Inr g \<longrightarrow>
        \<not> (isFist g \<and> isOpen g) \<and> \<not> (isFist g \<and> isPointing g)
        \<and> \<not> (isOpen g \<and> isPointing g))"
proof -
  have fo: "\<not> (detectFist l = Inr True \<and> detectOpenPalm l = Inr True)" for l
    using detectFist_True[of l] detectOpenPalm_True[of l] by fastforce
  have fp: "\<not> (detectFist l = Inr True \<and> detectPointing l = Inr True)" for l
    using detectFist_True[of l] detectPointing_True[of l] by fastforce
  have op: "\<not> (detectOpenPalm l = Inr True \<and> detectPointing l = Inr True)" for l
    using detectOpenPalm_True[of l] detectPointing_True[of l] by fastforce
  have "\<not> (isFist g \<and> isOpen g) \<and> \<not> (isFist g \<and> isPointing g) \<and> \<not> (isOpen g \<and> isPointing g)"
    if r: "onResults mhl = Inr g"
  proof (cases mhl)
    case None
    with r show ?thesis by (auto simp: onResults_def neutralGesture_def)
  next
    case (Some hands)
    show ?thesis
    proof (cases hands)
      case Nil
      with r Some show ?thesis by (auto simp: onResults_def neutralGesture_def)
    next
      case (Cons l rest)
      with r Some have "detectFist l = Inr (isFist g) \<and> detectOpenPalm l = Inr (isOpen g)
         \<and> detectPointing l = Inr (isPointing g)"
        using onResults_flags by simp
      with fo[of l] fp[of l] op[of l] show ?thesis by auto
    qed
  qed
  with fo fp op show ?thesis by blast
qed

theorem classifier_flags_exclusive_witness:
  "onResults (Some [fistFrame]) = Inr fistSignal
   \<and> isFist fistSignal \<and> \<not> isOpen fistSignal \<and> \<not> isPointing fistSignal
   \<and> detectFist fistFrame = Inr True \<and> detectOpenPalm fistFrame \<noteq> Inr True
   \<and> detectPointing fistFrame \<noteq> Inr True"
  using classifier_flags_exclusive[of fistFrame "Some [fistFrame]" fistSignal]
    onResults_fistFrame detectFist_fistFrame
  by (simp add: fistSignal_def)

section \<open>Properties of the state machine\<close>

lemma run_Nil: "run [] s = s"
  by (simp add: run_def)

lemma run_Cons: "run (e # es) s = run es (step s e)"
  by (simp add: run_def)

lemma run_snoc: "run (es @ [e]) s = step (run es s) e"
  by (simp add: run_def)

lemmas handler_defs =
  handleGesture_def handlePhotoSelect_def handleDeleteClick_def deleteTimeout_def
  handleCloseInspect_def handleFileUpload_def commitRefs_def

text \<open>The sample states, evaluated.\<close>

lemma photosApp_eq:
  "photosApp = initialApp\<lparr>photos := [''a.png'', ''b.png'', ''c.png''],
                          photosRef := [''a.png'', ''b.png'', ''c.png'']\<rparr>"
  by (simp add: photosApp_def run_def handler_defs initialApp_def MAX_PHOTOS_def)

lemma inspectApp_eq:
  "inspectApp = photosApp\<lparr>focusId := Some ''photo-1'', focusIdRef := Some ''photo-1'',
                          deleteConfirm := True, appState := INSPECT\<rparr>"
  by (simp add: inspectApp_def photosApp_eq run_def handler_defs initialApp_def)

lemma closedApp_eq:
  "closedApp = photosApp\<lparr>appState := SCATTER, gestureCooldownRef := 1000\<rparr>"
  by (simp add: closedApp_def inspectApp_eq photosApp_eq run_def handler_defs initialApp_def)

lemma photo_id_0: "photo_id 0 = ''photo-0''"
  by (simp add: photo_id_def show_int_def digit_char_def)

lemma photo_id_1: "photo_id 1 = ''photo-1''"
  by (simp add: photo_id_def show_int_def digit_char_def)

lemma handleGesture_cooldown:
  "now < gestureCooldownRef s \<Longrightarrow> handleGesture now rnd d s = s"
  by (simp add: handleGesture_def)

lemma cooldown_ticks:
  assumes "\<forall>t \<in> set ticks. fst t < gestureCooldownRef s"
  shows "run (map (\<lambda>(now, rnd, d). Gesture now rnd d) ticks) s = s"
  using assms
  by (induction ticks) (auto simp: run_Nil run_Cons handleGesture_cooldown)

text \<open>
  Claim C1, as amended. A signal with \<open>isFist\<close> set that arrives when the clock is not
  before the cooldown deadline sets the mode to TREE, the focus to null and the delete
  confirmation to false, whatever the prior state and the other three flags.
\<close>

theorem fist_resets_outside_cooldown:
  assumes "\<not> now < gestureCooldownRef s" and "isFist d"
  shows "appState (handleGesture now rnd d s) = TREE
         \<and> focusId (handleGesture now rnd d s) = None
         \<and> deleteConfirm (handleGesture now rnd d s) = False"
  using assms by (simp add: handleGesture_def Let_def)

theorem fist_resets_outside_cooldown_witness:
  "\<not> (0::int) < gestureCooldownRef inspectApp \<and> isFist allFlagsSignal
   \<and> appState inspectApp = INSPECT \<and> focusId inspectApp = Some ''photo-1''
   \<and> deleteConfirm inspectApp
   \<and> appState (handleGesture 0 0 allFlagsSignal inspectApp) = TREE
   \<and> focusId (handleGesture 0 0 allFlagsSignal inspectApp) = None
   \<and> deleteConfirm (handleGesture 0 0 allFlagsSignal inspectApp) = False"
  using fist_resets_outside_cooldown[of 0 inspectApp allFlagsSignal 0]
  by (simp add: inspectApp_eq photosApp_eq initialApp_def allFlagsSignal_def)

text \<open>
  Claim C1 as stated fails while the cooldown runs: after the inspect view is closed at
  time 0, a fist at time 500 leaves the mode at SCATTER.
\<close>

theorem fist_during_cooldown_counterexample:
  "isFist fistSignal \<and> (500::int) < gestureCooldownRef closedApp
   \<and> appState (handleGesture 500 0 fistSignal closedApp) = SCATTER
   \<and> appState (handleGesture 500 0 fistSignal closedApp) \<noteq> TREE"
  by (simp add: handleGesture_def closedApp_eq photosApp_eq initialApp_def fistSignal_def)

text \<open>
  Claim C2. While the clock is strictly before the cooldown deadline, \<open>handleGesture\<close>
  returns the state as it was, for every signal: mode and focus (and every other field)
  are unchanged, after one tick and after any number of ticks that all arrive before the
  deadline.
\<close>

theorem cooldown_suppresses_gestures:
  "(now < gestureCooldownRef s \<longrightarrow>
      handleGesture now rnd d s = s
      \<and> appState (handleGesture now rnd d s) = appState s
      \<and> focusId (handleGesture now rnd d s) = focusId s)
   \<and> ((\<forall>t \<in> set ticks. fst t < gestureCooldownRef s) \<longrightarrow>
        run (map (\<lambda>(now, rnd, d). Gesture now rnd d) ticks) s = s
        \<and> appState (run (map (\<lambda>(now, rnd, d). Gesture now rnd d) ticks) s) = appState s
        \<and> focusId (run (map (\<lambda>(now, rnd, d). Gesture now rnd d) ticks) s) = focusId s)"
  using handleGesture_cooldown[of now s rnd d] cooldown_ticks[of ticks s] by simp

theorem cooldown_suppresses_gestures_witness:
  "(999::int) < gestureCooldownRef closedApp
   \<and> handleGesture 999 0 fistSignal closedApp = closedApp
   \<and> (10::int) < gestureCooldownRef closedApp
   \<and> run [Gesture 10 0 fistSignal, Gesture 500 (1/2) pointSignal, Gesture 999 0 fistSignal]
          closedApp = closedApp
   \<and> appState closedApp = SCATTER"
  using cooldown_suppresses_gestures[of 999 closedApp 0 fistSignal
          "[(10, 0, fistSignal), (500, 1/2, pointSignal), (999, 0, fistSignal)]"]
  by (simp add: closedApp_eq photosApp_eq initialApp_def)

lemma random_index_in_range:
  assumes "0 \<le> (r::real)" and "r < 1" and "0 < n"
  shows "0 \<le> \<lfloor>r * real n\<rfloor> \<and> \<lfloor>r * real n\<rfloor> < int n"
proof -
  have "0 \<le> r * real n" using assms by simp
  moreover have "r * real n < real n" using assms by simp
  ultimately show ?thesis by (simp add: floor_less_iff)
qed

text \<open>The draws that select index \<open>j\<close> form the interval from \<open>j/n\<close> to \<open>(j+1)/n\<close>.\<close>

lemma random_index_interval:
  assumes "0 < n"
  shows "\<lfloor>r * real n\<rfloor> = int j \<longleftrightarrow> real j / real n \<le> r \<and> r < (real j + 1) / real n"
proof -
  have "\<lfloor>r * real n\<rfloor> = int j \<longleftrightarrow> real j \<le> r * real n \<and> r * real n < real j + 1"
    by (simp add: floor_eq_iff)
  also have "\<dots> \<longleftrightarrow> real j / real n \<le> r \<and> r < (real j + 1) / real n"
    using assms by (simp add: pos_divide_le_eq pos_less_divide_eq)
  finally show ?thesis .
qed

lemma pointedApp_eq:
  "pointedApp =
     photosApp\<lparr>gestureData := pointSignal, wasPointingRef := True,
               focusId := Some ''photo-1'', appState := INSPECT\<rparr>"
  by (simp add: pointedApp_def handleGesture_def Let_def photosApp_eq initialApp_def
        pointSignal_def photo_id_1)

text \<open>
  Claim C3, as amended. On a tick that arrives when the clock is not before the cooldown
  deadline, with \<open>isFist\<close> false, \<open>isPointing\<close> true and at least one photo in \<open>photosRef\<close>,
  and with the draw \<open>rnd\<close> of \<open>Math.random()\<close> in [0, 1): if the prior mode is not INSPECT
  or \<open>wasPointingRef\<close> is false, the mode becomes INSPECT and the focus becomes
  \<open>photo-k\<close> with \<open>k\<close> the floor of \<open>rnd\<close> times the photo count, which lies in
  [0, photo count) and equals \<open>j\<close> exactly for the draws in [j/n, (j+1)/n); if the prior
  mode is INSPECT and \<open>wasPointingRef\<close> is true, the mode stays INSPECT and the focus is
  unchanged. \<open>wasPointingRef\<close> is the \<open>isPointing\<close> flag of the last tick that the cooldown
  did not drop: such a tick stores its flag there, and a dropped tick and every other
  event leave it as it was.
\<close>

theorem pointing_selects_photo:
  assumes "\<not> now < gestureCooldownRef s" and "\<not> isFist d" and "isPointing d"
    and "photosRef s \<noteq> []" and "0 \<le> rnd" and "rnd < 1"
  shows "(appState s \<noteq> INSPECT \<or> \<not> wasPointingRef s \<longrightarrow>
            appState (handleGesture now rnd d s) = INSPECT
            \<and> focusId (handleGesture now rnd d s)
                = Some (photo_id \<lfloor>rnd * real (length (photosRef s))\<rfloor>)
            \<and> 0 \<le> \<lfloor>rnd * real (length (photosRef s))\<rfloor>
            \<and> \<lfloor>rnd * real (length (photosRef s))\<rfloor> < int (length (photosRef s))
            \<and> (\<lfloor>rnd * real (length (photosRef s))\<rfloor> = int j \<longleftrightarrow>
                 real j / real (length (photosRef s)) \<le> rnd
                 \<and> rnd < (real j + 1) / real (length (photosRef s))))
         \<and> (appState s = INSPECT \<and> wasPointingRef s \<longrightarrow>
              appState (handleGesture now rnd d s) = INSPECT
              \<and> focusId (handleGesture now rnd d s) = focusId s)
         \<and> wasPointingRef (step s' e) =
             (case e of
                Gesture now' rnd' d' \<Rightarrow>
                  if now' < gestureCooldownRef s' then wasPointingRef s' else isPointing d'
              | _ \<Rightarrow> wasPointingRef s')"
proof -
  have n: "0 < length (photosRef s)" using assms(4) by simp
  have "appState s \<noteq> INSPECT \<or> \<not> wasPointingRef s \<longrightarrow>
            appState (handleGesture now rnd d s) = INSPECT
            \<and> focusId (handleGesture now rnd d s)
                = Some (photo_id \<lfloor>rnd * real (length (photosRef s))\<rfloor>)"
    using assms by (simp add: handleGesture_def Let_def)
  moreover have "appState s = INSPECT \<and> wasPointingRef s \<longrightarrow>
              appState (handleGesture now rnd d s) = INSPECT
              \<and> focusId (handleGesture now rnd d s) = focusId s"
    using assms by (simp add: handleGesture_def Let_def)
  moreover have "wasPointingRef (step s' e) =
             (case e of
                Gesture now' rnd' d' \<Rightarrow>
                  if now' < gestureCooldownRef s' then wasPointingRef s' else isPointing d'
              | _ \<Rightarrow> wasPointingRef s')"
    by (cases e) (auto simp: handler_defs Let_def split: option.splits)
  ultimately show ?thesis
    using random_index_in_range[OF assms(5,6) n] random_index_interval[OF n, of rnd j]
    by simp
qed

theorem pointing_selects_photo_witness:
  "\<not> (0::int) < gestureCooldownRef photosApp \<and> \<not> isFist pointSignal \<and> isPointing pointSignal
   \<and> photosRef photosApp \<noteq> [] \<and> (0::real) \<le> 1/2 \<and> (1/2::real) < 1
   \<and> appState photosApp \<noteq> INSPECT
   \<and> appState pointedApp = INSPECT
   \<and> focusId pointedApp = Some ''photo-1''
   \<and> wasPointingRef pointedApp
   \<and> \<not> (40::int) < gestureCooldownRef pointedApp \<and> photosRef pointedApp \<noteq> []
   \<and> appState (handleGesture 40 (9/10) pointSignal pointedApp) = INSPECT
   \<and> focusId (handleGesture 40 (9/10) pointSignal pointedApp) = Some ''photo-1''"
proof -
  have p: "\<not> isFist pointSignal \<and> isPointing pointSignal"
    by (simp add: pointSignal_def)
  have s1: "\<not> (0::int) < gestureCooldownRef photosApp \<and> photosRef photosApp \<noteq> []
            \<and> appState photosApp \<noteq> INSPECT"
    by (simp add: photosApp_eq initialApp_def)
  have s2: "\<not> (40::int) < gestureCooldownRef pointedApp \<and> photosRef pointedApp \<noteq> []
            \<and> appState pointedApp = INSPECT \<and> wasPointingRef pointedApp
            \<and> focusId pointedApp = Some ''photo-1''"
    by (simp add: pointedApp_eq photosApp_eq initialApp_def)
  have t2: "appState (handleGesture 40 (9/10) pointSignal pointedApp) = INSPECT
            \<and> focusId (handleGesture 40 (9/10) pointSignal pointedApp) = focusId pointedApp"
    using pointing_selects_photo[of 40 pointedApp pointSignal "9/10" 2 pointedApp Render]
      p s2 by simp
  have t1: "appState (handleGesture 0 (1/2) pointSignal photosApp) = INSPECT
            \<and> wasPointingRef (step photosApp (Gesture 0 (1/2) pointSignal))"
    using pointing_selects_photo[of 0 photosApp pointSignal "1/2" 1 photosApp
            "Gesture 0 (1/2) pointSignal"] p s1 by simp
  show ?thesis using p s1 s2 t1 t2 by simp
qed

text \<open>
  Claim C3 as stated fails while the cooldown runs: with three photos present and the
  inspect view closed at time 0, a pointing tick at time 500 leaves the mode at SCATTER
  and the focus null.
\<close>

theorem pointing_during_cooldown_counterexample:
  "\<not> isFist pointSignal \<and> isPointing pointSignal \<and> photosRef closedApp \<noteq> []
   \<and> photos closedApp \<noteq> [] \<and> appState closedApp \<noteq> INSPECT
   \<and> appState (handleGesture 500 (1/2) pointSignal closedApp) = SCATTER
   \<and> focusId (handleGesture 500 (1/2) pointSignal closedApp) = None"
  by (simp add: handleGesture_def closedApp_eq photosApp_eq initialApp_def pointSignal_def)

text \<open>
  Batched updates. One event followed by its render, on a state with nothing pending, is
  the step of the rendered-event model followed by the effects.
\<close>

lemmas queued_defs =
  handleGestureQ_def handlePhotoSelectQ_def handleDeleteClickQ_def deleteTimeoutQ_def
  handleCloseInspectQ_def handleFileUploadQ_def

lemma render_settled: "render (settled s) = settled (commitRefs s)"
  by (simp add: render_def settled_def lastOr_def)

lemma event_then_render:
  "render (dispatch (settled s) e) = settled (commitRefs (step s e))"
proof (cases e)
  case (Gesture now rnd data)
  then show ?thesis
    by (simp add: handleGestureQ_def handleGesture_def render_def settled_def lastOr_def
          gestureUpdater_def commitRefs_def Let_def)
next
  case (PhotoSelect ident)
  then show ?thesis
    by (simp add: handlePhotoSelectQ_def handlePhotoSelect_def render_def settled_def
          lastOr_def commitRefs_def)
next
  case (DeleteClick now)
  then show ?thesis
    by (simp add: handleDeleteClickQ_def handleDeleteClick_def render_def settled_def
          lastOr_def commitRefs_def split: option.splits)
next
  case DeleteTimeout
  then show ?thesis
    by (simp add: deleteTimeoutQ_def deleteTimeout_def render_def settled_def lastOr_def
          commitRefs_def)
next
  case (CloseInspect now)
  then show ?thesis
    by (simp add: handleCloseInspectQ_def handleCloseInspect_def render_def settled_def
          lastOr_def commitRefs_def)
next
  case (FileUpload files)
  then show ?thesis
    by (simp add: handleFileUploadQ_def handleFileUpload_def render_def settled_def
          lastOr_def commitRefs_def Let_def split: option.splits)
next
  case Render
  then show ?thesis by (simp add: render_settled commitRefs_def)
qed

text \<open>After any run of events and renders the refs hold the rendered photos and focus.\<close>

lemma refs_in_step_dispatch:
  assumes "photosRef (current b) = photos (current b)"
    and "focusIdRef (current b) = focusId (current b)"
  shows "photosRef (current (dispatch b e)) = photos (current (dispatch b e))
         \<and> focusIdRef (current (dispatch b e)) = focusId (current (dispatch b e))"
  using assms
  by (cases e)
     (auto simp: queued_defs render_def settled_def commitRefs_def Let_def
        split: option.splits prod.splits)

lemma refs_in_step_run:
  "photosRef (current (runBatched es (settled initialApp)))
     = photos (current (runBatched es (settled initialApp)))
   \<and> focusIdRef (current (runBatched es (settled initialApp)))
     = focusId (current (runBatched es (settled initialApp)))"
proof (induction es rule: rev_induct)
  case Nil
  show ?case by (simp add: runBatched_def settled_def initialApp_def)
next
  case (snoc e es)
  then show ?case
    using refs_in_step_dispatch[of "runBatched es (settled initialApp)" e]
    by (simp add: runBatched_def)
qed

lemma photo_id_2: "photo_id 2 = ''photo-2''"
  by (simp add: photo_id_def show_int_def digit_char_def)

text \<open>The sample session, evaluated.\<close>

lemma selectedBatch_eq:
  "selectedBatch =
     settled (photosApp\<lparr>focusId := Some ''photo-1'', focusIdRef := Some ''photo-1'',
                        appState := INSPECT\<rparr>)"
  by (simp add: selectedBatch_def runBatched_def queued_defs render_def settled_def lastOr_def
        commitRefs_def photosApp_eq initialApp_def MAX_PHOTOS_def)

lemma racedBatch_eq:
  "racedBatch =
     settled (photosApp\<lparr>gestureData := pointSignal, wasPointingRef := True,
                        focusId := Some ''photo-2'', focusIdRef := Some ''photo-2'',
                        appState := SCATTER, gestureCooldownRef := 1005\<rparr>)"
  by (simp add: racedBatch_def selectedBatch_eq runBatched_def queued_defs render_def
        settled_def lastOr_def commitRefs_def gestureUpdater_def photosApp_eq initialApp_def
        pointSignal_def photo_id_2 Let_def)

text \<open>
  Claim C4, as amended. On a tick that arrives when the clock is not before the cooldown
  deadline, with prior mode SCATTER, \<open>isPinching\<close> true, at least one photo in
  \<open>photosRef\<close> and the other three flags false, on a rendered state (\<open>focusIdRef\<close> holds
  the focus, which is null or a non-empty item id): if the focus is null, the focus
  becomes \<open>photo-0\<close> and the mode INSPECT; if the focus is non-null, the mode becomes
  INSPECT and the focus is unchanged.
\<close>

theorem pinch_fallback:
  assumes "\<not> now < gestureCooldownRef s" and "appState s = SCATTER" and "isPinching d"
    and "photosRef s \<noteq> []" and "\<not> isFist d" and "\<not> isOpen d" and "\<not> isPointing d"
    and "focusIdRef s = focusId s" and "focusId s \<noteq> Some []"
  shows "(focusId s = None \<longrightarrow>
            focusId (handleGesture now rnd d s) = Some ''photo-0''
            \<and> appState (handleGesture now rnd d s) = INSPECT)
         \<and> (focusId s \<noteq> None \<longrightarrow>
              appState (handleGesture now rnd d s) = INSPECT
              \<and> focusId (handleGesture now rnd d s) = focusId s)"
  using assms by (auto simp: handleGesture_def Let_def truthy_def split: option.splits)

theorem pinch_fallback_witness:
  "\<not> (1000::int) < gestureCooldownRef closedApp \<and> appState closedApp = SCATTER
   \<and> isPinching pinchSignal \<and> photosRef closedApp \<noteq> []
   \<and> \<not> isFist pinchSignal \<and> \<not> isOpen pinchSignal \<and> \<not> isPointing pinchSignal
   \<and> focusIdRef closedApp = focusId closedApp \<and> focusId closedApp = None
   \<and> focusId (handleGesture 1000 0 pinchSignal closedApp) = Some ''photo-0''
   \<and> appState (handleGesture 1000 0 pinchSignal closedApp) = INSPECT
   \<and> \<not> (2000::int) < gestureCooldownRef (current racedBatch)
   \<and> appState (current racedBatch) = SCATTER \<and> photosRef (current racedBatch) \<noteq> []
   \<and> focusIdRef (current racedBatch) = focusId (current racedBatch)
   \<and> focusId (current racedBatch) = Some ''photo-2''
   \<and> appState (handleGesture 2000 0 pinchSignal (current racedBatch)) = INSPECT
   \<and> focusId (handleGesture 2000 0 pinchSignal (current racedBatch)) = Some ''photo-2''"
proof -
  have p: "isPinching pinchSignal \<and> \<not> isFist pinchSignal \<and> \<not> isOpen pinchSignal
           \<and> \<not> isPointing pinchSignal"
    by (simp add: pinchSignal_def)
  have a: "\<not> (1000::int) < gestureCooldownRef closedApp \<and> appState closedApp = SCATTER
           \<and> photosRef closedApp \<noteq> [] \<and> focusIdRef closedApp = focusId closedApp
           \<and> focusId closedApp = None"
    by (simp add: closedApp_eq photosApp_eq initialApp_def)
  have b: "\<not> (2000::int) < gestureCooldownRef (current racedBatch)
           \<and> appState (current racedBatch) = SCATTER \<and> photosRef (current racedBatch) \<noteq> []
           \<and> focusIdRef (current racedBatch) = focusId (current racedBatch)
           \<and> focusId (current racedBatch) = Some ''photo-2''"
    by (simp add: racedBatch_eq settled_def photosApp_eq initialApp_def)
  show ?thesis
    using pinch_fallback[of 1000 closedApp pinchSignal 0]
      pinch_fallback[of 2000 "current racedBatch" pinchSignal 0] p a b
    by simp
qed

text \<open>
  Claim C4 as stated fails while the cooldown runs: with the inspect view closed at time
  0, a pinch at time 500 in SCATTER mode with a null focus changes neither.
\<close>

theorem pinch_fallback_counterexample:
  "appState closedApp = SCATTER \<and> isPinching pinchSignal \<and> photosRef closedApp \<noteq> []
   \<and> \<not> isFist pinchSignal \<and> \<not> isOpen pinchSignal \<and> \<not> isPointing pinchSignal
   \<and> focusId closedApp = None \<and> focusIdRef closedApp = None
   \<and> (500::int) < gestureCooldownRef closedApp
   \<and> focusId (handleGesture 500 0 pinchSignal closedApp) = None
   \<and> appState (handleGesture 500 0 pinchSignal closedApp) = SCATTER"
  by (simp add: handleGesture_def closedApp_eq photosApp_eq initialApp_def pinchSignal_def)

text \<open>
  When every event is rendered before the next arrives, each event keeps "a focus is set
  only in INSPECT mode", and an event that leaves INSPECT leaves the focus null.
\<close>

lemma focus_invariant_step:
  "(focusId s \<noteq> None \<longrightarrow> appState s = INSPECT)
   \<Longrightarrow> (focusId (step s e) \<noteq> None \<longrightarrow> appState (step s e) = INSPECT)"
  by (cases e)
     (auto simp: handler_defs Let_def split: option.splits if_splits)

lemma focus_invariant_run:
  "focusId (run es initialApp) \<noteq> None \<longrightarrow> appState (run es initialApp) = INSPECT"
proof (induction es rule: rev_induct)
  case Nil
  show ?case by (simp add: run_Nil initialApp_def)
next
  case (snoc e es)
  then show ?case unfolding run_snoc by (rule focus_invariant_step)
qed

lemma leaving_INSPECT_clears_focus:
  "appState s = INSPECT \<Longrightarrow> appState (step s e) \<noteq> INSPECT \<Longrightarrow> focusId (step s e) = None"
  by (cases e)
     (auto simp: handler_defs Let_def split: option.splits if_splits)



text \<open>
  Claim C5 fails on the code when a click follows a capture tick before the render. In
  the sample session the rendered state is INSPECT with focus \<open>photo-1\<close>; a fresh pointing
  tick queues its updater, the Close click queues \<open>setFocusId(null)\<close> and
  \<open>setAppState(SCATTER)\<close>, and the render runs the updater first, whose \<open>setFocusId\<close>
  call lands behind the one of Close: the rendered state is SCATTER with focus
  \<open>photo-2\<close>. With a render between the tick and the click the same events end in
  SCATTER with a null focus.
\<close>

theorem close_after_pointing_keeps_focus:
  "appState (current selectedBatch) = INSPECT
   \<and> focusId (current selectedBatch) = Some ''photo-1''
   \<and> racedBatch = runBatched [Gesture 0 (9/10) pointSignal, CloseInspect 5, Render] selectedBatch
   \<and> appState (current racedBatch) = SCATTER
   \<and> focusId (current racedBatch) = Some ''photo-2''
   \<and> appStateQueue racedBatch = [] \<and> focusIdQueue racedBatch = []
   \<and> appState (current (runBatched [Gesture 0 (9/10) pointSignal, Render, CloseInspect 5, Render]
                           selectedBatch)) = SCATTER
   \<and> focusId (current (runBatched [Gesture 0 (9/10) pointSignal, Render, CloseInspect 5, Render]
                          selectedBatch)) = None"
proof -
  have serial:
    "runBatched [Gesture 0 (9/10) pointSignal, Render, CloseInspect 5, Render] selectedBatch
       = settled (photosApp\<lparr>gestureData := pointSignal, wasPointingRef := True,
                             appState := SCATTER, gestureCooldownRef := 1005\<rparr>)"
    by (simp add: selectedBatch_eq runBatched_def queued_defs render_def
        settled_def lastOr_def commitRefs_def gestureUpdater_def photosApp_eq initialApp_def
        pointSignal_def photo_id_2 Let_def)
  have a: "appState (current selectedBatch) = INSPECT
           \<and> focusId (current selectedBatch) = Some ''photo-1''"
    by (simp add: selectedBatch_eq settled_def)
  have b: "racedBatch
           = runBatched [Gesture 0 (9/10) pointSignal, CloseInspect 5, Render] selectedBatch"
    by (simp add: racedBatch_def)
  have c: "appState (current racedBatch) = SCATTER
           \<and> focusId (current racedBatch) = Some ''photo-2''
           \<and> appStateQueue racedBatch = [] \<and> focusIdQueue racedBatch = []"
    by (simp add: racedBatch_eq settled_def)
  have d: "appState (current (settled (photosApp\<lparr>gestureData := pointSignal,
                      wasPointingRef := True, appState := SCATTER,
                      gestureCooldownRef := 1005\<rparr>))) = SCATTER
           \<and> focusId (current (settled (photosApp\<lparr>gestureData := pointSignal,
                      wasPointingRef := True, appState := SCATTER,
                      gestureCooldownRef := 1005\<rparr>))) = None"
    by (simp add: settled_def photosApp_eq initialApp_def)
  from a b c d show ?thesis unfolding serial by blast
qed

section \<open>Properties of the blend step\<close>

lemma Vector3_eq_iff:
  "(p::Vector3) = q \<longleftrightarrow> vx p = vx q \<and> vy p = vy q \<and> vz p = vz q"
  by (cases p, cases q) simp

lemma distanceTo_zero_iff: "distanceTo p t = 0 \<longleftrightarrow> p = t"
proof -
  have "distanceTo p t = 0 \<longleftrightarrow> (vx p - vx t)\<^sup>2 + (vy p - vy t)\<^sup>2 + (vz p - vz t)\<^sup>2 = 0"
    by (simp add: distanceTo_def)
  also have "\<dots> \<longleftrightarrow> vx p - vx t = 0 \<and> vy p - vy t = 0 \<and> vz p - vz t = 0"
    by (simp add: add_nonneg_eq_0_iff)
  also have "\<dots> \<longleftrightarrow> p = t"
    by (simp add: Vector3_eq_iff)
  finally show ?thesis .
qed

lemma distanceTo_nonneg: "0 \<le> distanceTo p t"
  by (simp add: distanceTo_def)

text \<open>One \<open>lerp\<close> towards \<open>t\<close> scales the distance to \<open>t\<close> by \<open>|1 - alpha|\<close>.\<close>

lemma distanceTo_lerp: "distanceTo (lerp p t a) t = \<bar>1 - a\<bar> * distanceTo p t"
proof -
  have c: "u + (w - u) * a - w = (1 - a) * (u - w)" for u w :: real
    by (simp add: algebra_simps)
  have "(vx (lerp p t a) - vx t)\<^sup>2 + (vy (lerp p t a) - vy t)\<^sup>2 + (vz (lerp p t a) - vz t)\<^sup>2
        = (1 - a)\<^sup>2 * ((vx p - vx t)\<^sup>2 + (vy p - vy t)\<^sup>2 + (vz p - vz t)\<^sup>2)"
    by (simp add: lerp_def c power_mult_distrib distrib_left)
  then show ?thesis
    by (simp add: distanceTo_def real_sqrt_mult)
qed

lemma distanceTo_blendStep:
  "distanceTo (blendStep t delta p) t = \<bar>1 - 3 * delta\<bar> * distanceTo p t"
  by (simp add: blendStep_def distanceTo_lerp mult.commute)

lemma blend_factor:
  assumes "0 < (delta::real)"
  shows "(\<bar>1 - 3 * delta\<bar> < 1 \<and> \<bar>1 - 3 * delta\<bar> \<noteq> 0) \<longleftrightarrow> (delta < 2/3 \<and> delta \<noteq> 1/3)"
  using assms by (auto simp: abs_if)

lemma blendStep_contracts_iff:
  assumes "p \<noteq> t" and "0 < delta"
  shows "(distanceTo (blendStep t delta p) t < distanceTo p t
          \<and> distanceTo (blendStep t delta p) t \<noteq> 0)
         \<longleftrightarrow> (delta < 2/3 \<and> delta \<noteq> 1/3)"
proof -
  have pos: "0 < distanceTo p t"
    using assms(1) distanceTo_zero_iff[of p t] distanceTo_nonneg[of p t] by linarith
  have "(\<bar>1 - 3 * delta\<bar> * distanceTo p t < distanceTo p t) \<longleftrightarrow> \<bar>1 - 3 * delta\<bar> < 1"
    using pos by simp
  moreover have "(\<bar>1 - 3 * delta\<bar> * distanceTo p t \<noteq> 0) \<longleftrightarrow> \<bar>1 - 3 * delta\<bar> \<noteq> 0"
    using pos by simp
  ultimately show ?thesis
    using blend_factor[OF assms(2)] by (simp only: distanceTo_blendStep)
qed

text \<open>Outside SCATTER mode the frame's whole position update is the blend step.\<close>

lemma framePosition_not_SCATTER:
  "targetMode \<noteq> SCATTER \<Longrightarrow>
   framePosition item targetMode focus off time delta p
     = blendStep (targetPos item targetMode focus) delta p"
  by (simp add: framePosition_def Let_def)



lemma sampleLight_scatterPos: "scatterPos sampleLight = \<lparr>vx = 0, vy = 0, vz = 0\<rparr>"
  by (simp add: sampleLight_def light_def Let_def)

text \<open>
  Claim C6, as amended. For a live position \<open>p\<close>, a constant target \<open>t\<close> and a frame with
  elapsed time \<open>delta\<close>, the blend step multiplies the distance to the target by
  \<open>|1 - 3 delta|\<close>: the distance does not grow when \<open>0 < delta \<le> 2/3\<close>, it is zero after
  the step when \<open>delta = 1/3\<close>, and it grows when \<open>delta > 2/3\<close> and \<open>p\<close> is off the target.
  In TREE and INSPECT mode the blend step is the frame's whole position update; in
  SCATTER mode the frame then adds its noise to \<open>x\<close> and \<open>y\<close>. (Exact arithmetic, which the
  code's doubles follow up to rounding; nothing is stated about the distance staying
  nonzero or strictly decreasing over many frames.)
\<close>

theorem blend_step_scales_distance:
  "distanceTo (blendStep t delta p) t = \<bar>1 - 3 * delta\<bar> * distanceTo p t
   \<and> (0 < delta \<and> delta \<le> 2/3 \<longrightarrow> distanceTo (blendStep t delta p) t \<le> distanceTo p t)
   \<and> (delta = 1/3 \<longrightarrow> distanceTo (blendStep t delta p) t = 0)
   \<and> (2/3 < delta \<and> p \<noteq> t \<longrightarrow> distanceTo p t < distanceTo (blendStep t delta p) t)
   \<and> (targetMode \<noteq> SCATTER \<longrightarrow>
         framePosition item targetMode focus off time delta p
           = blendStep (targetPos item targetMode focus) delta p)
   \<and> (targetMode = SCATTER \<longrightarrow>
         framePosition item targetMode focus off time delta p
           = \<lparr>vx = vx (blendStep (scatterPos item) delta p) + cos (time * 0.5 + off) * 0.02,
              vy = vy (blendStep (scatterPos item) delta p) + sin (time + off) * 0.02,
              vz = vz (blendStep (scatterPos item) delta p)\<rparr>)"
proof -
  have law: "distanceTo (blendStep t delta p) t = \<bar>1 - 3 * delta\<bar> * distanceTo p t"
    by (rule distanceTo_blendStep)
  have le: "0 < delta \<and> delta \<le> 2/3 \<longrightarrow> distanceTo (blendStep t delta p) t \<le> distanceTo p t"
  proof
    assume "0 < delta \<and> delta \<le> 2/3"
    then have "\<bar>1 - 3 * delta\<bar> \<le> 1" by (auto simp: abs_if)
    then have "\<bar>1 - 3 * delta\<bar> * distanceTo p t \<le> 1 * distanceTo p t"
      by (intro mult_right_mono distanceTo_nonneg)
    then show "distanceTo (blendStep t delta p) t \<le> distanceTo p t"
      by (simp add: law)
  qed
  have zero: "delta = 1/3 \<longrightarrow> distanceTo (blendStep t delta p) t = 0"
    by (simp add: law)
  have gt: "2/3 < delta \<and> p \<noteq> t \<longrightarrow> distanceTo p t < distanceTo (blendStep t delta p) t"
  proof
    assume h: "2/3 < delta \<and> p \<noteq> t"
    then have pos: "0 < distanceTo p t"
      using distanceTo_zero_iff[of p t] distanceTo_nonneg[of p t] by linarith
    from h have "1 < \<bar>1 - 3 * delta\<bar>" by (auto simp: abs_if)
    then have "1 * distanceTo p t < \<bar>1 - 3 * delta\<bar> * distanceTo p t"
      using pos by (intro mult_strict_right_mono)
    then show "distanceTo p t < distanceTo (blendStep t delta p) t"
      by (simp add: law)
  qed
  have frame: "targetMode \<noteq> SCATTER \<longrightarrow>
         framePosition item targetMode focus off time delta p
           = blendStep (targetPos item targetMode focus) delta p"
    by (simp add: framePosition_not_SCATTER)
  have noise: "targetMode = SCATTER \<longrightarrow>
         framePosition item targetMode focus off time delta p
           = \<lparr>vx = vx (blendStep (scatterPos item) delta p) + cos (time * 0.5 + off) * 0.02,
              vy = vy (blendStep (scatterPos item) delta p) + sin (time + off) * 0.02,
              vz = vz (blendStep (scatterPos item) delta p)\<rparr>"
    by (simp add: framePosition_def targetPos_def Let_def)
  from law le zero gt frame noise show ?thesis by blast
qed

theorem blend_step_scales_distance_witness:
  "distanceTo \<lparr>vx = 1, vy = 0, vz = 0\<rparr> \<lparr>vx = 0, vy = 0, vz = 0\<rparr> = 1
   \<and> (0::real) < 1/6 \<and> (1/6::real) \<le> 2/3
   \<and> distanceTo (blendStep \<lparr>vx = 0, vy = 0, vz = 0\<rparr> (1/6) \<lparr>vx = 1, vy = 0, vz = 0\<rparr>)
        \<lparr>vx = 0, vy = 0, vz = 0\<rparr> = 1/2
   \<and> distanceTo (blendStep \<lparr>vx = 0, vy = 0, vz = 0\<rparr> (1/3) \<lparr>vx = 1, vy = 0, vz = 0\<rparr>)
        \<lparr>vx = 0, vy = 0, vz = 0\<rparr> = 0
   \<and> (2/3::real) < 1 \<and> \<lparr>vx = 1, vy = 0, vz = 0\<rparr> \<noteq> \<lparr>vx = 0, vy = 0, vz = 0\<rparr>
   \<and> distanceTo (blendStep \<lparr>vx = 0, vy = 0, vz = 0\<rparr> 1 \<lparr>vx = 1, vy = 0, vz = 0\<rparr>)
        \<lparr>vx = 0, vy = 0, vz = 0\<rparr> = 2
   \<and> TREE \<noteq> SCATTER
   \<and> framePosition sampleLight TREE None 0 0 (1/6) \<lparr>vx = 1, vy = 0, vz = 0\<rparr>
       = blendStep (targetPos sampleLight TREE None) (1/6) \<lparr>vx = 1, vy = 0, vz = 0\<rparr>
   \<and> framePosition sampleLight SCATTER None 0 0 (1/6) \<lparr>vx = 1, vy = 0, vz = 0\<rparr>
       = \<lparr>vx = 1/2 + 1/50, vy = 0, vz = 0\<rparr>"
proof -
  have d: "distanceTo \<lparr>vx = 1, vy = 0, vz = 0\<rparr> \<lparr>vx = 0, vy = 0, vz = 0\<rparr> = 1"
    by (simp add: distanceTo_def)
  have b: "blendStep \<lparr>vx = 0, vy = 0, vz = 0\<rparr> (1/6) \<lparr>vx = 1, vy = 0, vz = 0\<rparr>
           = \<lparr>vx = 1/2, vy = 0, vz = 0\<rparr>"
    by (simp add: blendStep_def lerp_def)
  show ?thesis
    using blend_step_scales_distance[of "\<lparr>vx = 0, vy = 0, vz = 0\<rparr>" "1/6"
            "\<lparr>vx = 1, vy = 0, vz = 0\<rparr>" TREE sampleLight None 0 0]
      blend_step_scales_distance[of "\<lparr>vx = 0, vy = 0, vz = 0\<rparr>" "1/3"
            "\<lparr>vx = 1, vy = 0, vz = 0\<rparr>" SCATTER sampleLight None 0 0]
      blend_step_scales_distance[of "\<lparr>vx = 0, vy = 0, vz = 0\<rparr>" 1
            "\<lparr>vx = 1, vy = 0, vz = 0\<rparr>" SCATTER sampleLight None 0 0]
      blend_step_scales_distance[of "\<lparr>vx = 0, vy = 0, vz = 0\<rparr>" "1/6"
            "\<lparr>vx = 1, vy = 0, vz = 0\<rparr>" SCATTER sampleLight None 0 0]
      d b sampleLight_scatterPos
    by simp
qed

text \<open>
  Claim C6 as stated fails in three ways. With \<open>delta = 1/3\<close> one blend step lands exactly
  on the target; with \<open>delta = 1\<close> it doubles the distance; and in SCATTER mode a frame
  with \<open>delta = 1/6\<close> takes an item at distance 1/1000 from its target to distance
  41/2000, the noise being added after the blend step.
\<close>

theorem blend_step_counterexample:
  "\<lparr>vx = 1, vy = 0, vz = 0\<rparr> \<noteq> \<lparr>vx = 0, vy = 0, vz = 0\<rparr> \<and> (0::real) < 1/3
   \<and> distanceTo \<lparr>vx = 1, vy = 0, vz = 0\<rparr> \<lparr>vx = 0, vy = 0, vz = 0\<rparr> = 1
   \<and> distanceTo (blendStep \<lparr>vx = 0, vy = 0, vz = 0\<rparr> (1/3) \<lparr>vx = 1, vy = 0, vz = 0\<rparr>)
        \<lparr>vx = 0, vy = 0, vz = 0\<rparr> = 0
   \<and> distanceTo (blendStep \<lparr>vx = 0, vy = 0, vz = 0\<rparr> 1 \<lparr>vx = 1, vy = 0, vz = 0\<rparr>)
        \<lparr>vx = 0, vy = 0, vz = 0\<rparr> = 2
   \<and> targetPos sampleLight SCATTER None = \<lparr>vx = 0, vy = 0, vz = 0\<rparr>
   \<and> distanceTo \<lparr>vx = 1/1000, vy = 0, vz = 0\<rparr> (targetPos sampleLight SCATTER None) = 1/1000
   \<and> distanceTo (framePosition sampleLight SCATTER None 0 0 (1/6) \<lparr>vx = 1/1000, vy = 0, vz = 0\<rparr>)
        (targetPos sampleLight SCATTER None) = 41/2000"
proof -
  have t: "targetPos sampleLight SCATTER None = \<lparr>vx = 0, vy = 0, vz = 0\<rparr>"
    by (simp add: targetPos_def sampleLight_scatterPos)
  have f: "framePosition sampleLight SCATTER None 0 0 (1/6) \<lparr>vx = 1/1000, vy = 0, vz = 0\<rparr>
           = \<lparr>vx = 41/2000, vy = 0, vz = 0\<rparr>"
    by (simp add: framePosition_def t blendStep_def lerp_def Let_def)
  show ?thesis
    by (simp add: t f) (simp add: distanceTo_def blendStep_def lerp_def)
qed

section \<open>Properties of the layout generator\<close>

lemma js_rem_1_nonneg: "0 \<le> a \<Longrightarrow> js_rem a 1 = frac a"
  by (simp add: js_rem_def frac_def)

lemma ornament_treePos:
  "treePos (ornament rnd i) =
     \<lparr>vx = ((1 - real i / 300) * 6 + (1 - frac ((real i / 300) * 5)) * 1.5)
             * cos (real i * (pi * (3 - sqrt 5))),
      vy = (real i / 300) * 16 - 8,
      vz = ((1 - real i / 300) * 6 + (1 - frac ((real i / 300) * 5)) * 1.5)
             * sin (real i * (pi * (3 - sqrt 5)))\<rparr>"
  by (simp add: ornament_def Let_def ORNAMENT_COUNT_def TREE_HEIGHT_def TREE_RADIUS_BASE_def
        layers_def goldenAngle_def js_rem_1_nonneg)

lemma scatter_bound:
  assumes "0 \<le> (r::real)" and "r < 1" and "0 \<le> R"
  shows "\<bar>(r - 0.5) * R * 2\<bar> \<le> R"
proof -
  have "(r - 0.5) * R * 2 = (2 * r - 1) * R"
    by (simp add: algebra_simps)
  then have "\<bar>(r - 0.5) * R * 2\<bar> = \<bar>(2 * r - 1) * R\<bar>"
    by (simp only:)
  also have "\<dots> = \<bar>2 * r - 1\<bar> * R"
    using assms(3) by (simp only: abs_mult abs_of_nonneg)
  also have "\<dots> \<le> 1 * R"
    using assms by (intro mult_right_mono) (auto simp: abs_if)
  finally show ?thesis by simp
qed

lemma ornament_scatterPos:
  assumes "\<forall>k. 0 \<le> rnd k \<and> rnd k < 1"
  shows "\<bar>vx (scatterPos (ornament rnd i))\<bar> \<le> 45 \<and> \<bar>vy (scatterPos (ornament rnd i))\<bar> \<le> 25
         \<and> \<bar>vz (scatterPos (ornament rnd i))\<bar> \<le> 20"
  using scatter_bound[of "rnd (9 * i)" 45] scatter_bound[of "rnd (9 * i + 1)" 25]
        scatter_bound[of "rnd (9 * i + 2)" 20] assms
  by (simp add: ornament_def Let_def SCATTER_RADIUS_X_def SCATTER_RADIUS_Y_def
        SCATTER_RADIUS_Z_def)

lemma items_nth_ornament: "i < 300 \<Longrightarrow> items rnd ! i = ornament rnd i"
  by (simp add: items_def nth_append ORNAMENT_COUNT_def)

text \<open>
  Claim C7. For every ornament index \<open>i\<close> below 300, the assembled pose of item \<open>i\<close> is
  \<open>(r cos \<theta>, h, r sin \<theta>)\<close> with \<open>h = (i/300) 16 - 8\<close>, \<open>\<theta> = i \<pi> (3 - \<surd>5)\<close> and
  \<open>r = (1 - i/300) 6 + (1 - frac ((i/300) 5)) 1.5\<close>; it does not depend on the random
  draws, so two generations agree on it; and when every draw lies in [0, 1) the dispersed
  pose has \<open>|x| \<le> 45\<close>, \<open>|y| \<le> 25\<close>, \<open>|z| \<le> 20\<close>. (Exact real arithmetic.)
\<close>

theorem ornament_layout:
  assumes "i < 300"
  shows "treePos (items rnd ! i) =
           \<lparr>vx = ((1 - real i / 300) * 6 + (1 - frac ((real i / 300) * 5)) * 1.5)
                   * cos (real i * (pi * (3 - sqrt 5))),
            vy = (real i / 300) * 16 - 8,
            vz = ((1 - real i / 300) * 6 + (1 - frac ((real i / 300) * 5)) * 1.5)
                   * sin (real i * (pi * (3 - sqrt 5)))\<rparr>
         \<and> treePos (items rnd ! i) = treePos (items rnd' ! i)
         \<and> ((\<forall>k. 0 \<le> rnd k \<and> rnd k < 1) \<longrightarrow>
               \<bar>vx (scatterPos (items rnd ! i))\<bar> \<le> 45
               \<and> \<bar>vy (scatterPos (items rnd ! i))\<bar> \<le> 25
               \<and> \<bar>vz (scatterPos (items rnd ! i))\<bar> \<le> 20)"
  using assms ornament_scatterPos[of rnd i]
  by (simp only: items_nth_ornament ornament_treePos) simp

theorem ornament_layout_witness:
  "(0::nat) < 300
   \<and> treePos (items (\<lambda>k. 1/4) ! 0) = \<lparr>vx = 15/2, vy = - 8, vz = 0\<rparr>
   \<and> treePos (items (\<lambda>k. 1/4) ! 0) = treePos (items (\<lambda>k. 3/4) ! 0)
   \<and> (\<forall>k::nat. (0::real) \<le> 1/4 \<and> (1/4::real) < 1)
   \<and> \<bar>vx (scatterPos (items (\<lambda>k. 1/4) ! 0))\<bar> \<le> 45
   \<and> \<bar>vy (scatterPos (items (\<lambda>k. 1/4) ! 0))\<bar> \<le> 25
   \<and> \<bar>vz (scatterPos (items (\<lambda>k. 1/4) ! 0))\<bar> \<le> 20"
  using ornament_layout[of 0 "\<lambda>k. 1/4" "\<lambda>k. 3/4"]
  by auto

text \<open>The decimal rendering of an index is injective, and so are the photo ids.\<close>

lemma digit_char_inj:
  assumes "a < 10" and "b < 10" and "digit_char a = digit_char b"
  shows "a = b"
proof -
  have "distinct ''0123456789''" by simp
  moreover have "length ''0123456789'' = 10" by simp
  ultimately show ?thesis
    using assms unfolding digit_char_def by (metis nth_eq_iff_index_eq)
qed

lemma show_nat_small: "n < 10 \<Longrightarrow> show_nat n = [digit_char n]"
  by (subst show_nat.simps) simp

lemma show_nat_large:
  "\<not> n < 10 \<Longrightarrow> show_nat n = show_nat (n div 10) @ [digit_char (n mod 10)]"
  by (subst show_nat.simps) simp

lemma show_nat_nonempty: "show_nat n \<noteq> []"
  by (subst show_nat.simps) simp

lemma show_nat_inj: "show_nat a = show_nat b \<Longrightarrow> a = b"
proof (induction a arbitrary: b rule: show_nat.induct)
  case (1 n)
  show ?case
  proof (cases "n < 10")
    case True
    note small = this
    show ?thesis
    proof (cases "b < 10")
      case True
      with small "1.prems" have "digit_char n = digit_char b"
        by (simp add: show_nat_small)
      with small True show ?thesis by (rule digit_char_inj)
    next
      case False
      with small "1.prems" show_nat_nonempty[of "b div 10"] show ?thesis
        by (cases "show_nat (b div 10)") (auto simp: show_nat_small show_nat_large)
    qed
  next
    case False
    note large = this
    show ?thesis
    proof (cases "b < 10")
      case True
      with large "1.prems" show_nat_nonempty[of "n div 10"] show ?thesis
        by (cases "show_nat (n div 10)") (auto simp: show_nat_small show_nat_large)
    next
      case bF: False
      with large "1.prems" have e1: "show_nat (n div 10) = show_nat (b div 10)"
        and e2: "digit_char (n mod 10) = digit_char (b mod 10)"
        by (auto simp: show_nat_large)
      from "1.IH"[OF large e1] have "n div 10 = b div 10" .
      moreover have "n mod 10 = b mod 10" using e2 by (intro digit_char_inj) auto
      ultimately show ?thesis by (metis div_mult_mod_eq)
    qed
  qed
qed

lemma photo_id_inj: "photo_id (int a) = photo_id (int b) \<Longrightarrow> a = b"
  by (simp add: photo_id_def show_int_def show_nat_inj)

text \<open>What each of the five loops writes into the id and the type of its items.\<close>

lemma ornament_id_type:
  "item_id (ornament rnd i) = ''ornament-'' @ show_int (int i)
   \<and> item_type (ornament rnd i) \<noteq> photo"
  by (simp add: ornament_def Let_def)

lemma foil_id_type:
  "item_id (foil rnd i) = ''foil-'' @ show_int (int i) \<and> item_type (foil rnd i) \<noteq> photo"
  by (simp add: foil_def Let_def)

lemma ribbonWhite_id_type:
  "item_id (ribbonWhite rnd i) = ''ribbon-white-'' @ show_int (int i)
   \<and> item_type (ribbonWhite rnd i) \<noteq> photo"
  by (simp add: ribbonWhite_def Let_def)

lemma ribbonBlue_id_type:
  "item_id (ribbonBlue rnd i) = ''ribbon-blue-'' @ show_int (int i)
   \<and> item_type (ribbonBlue rnd i) \<noteq> photo"
  by (simp add: ribbonBlue_def Let_def)

lemma light_id_type:
  "item_id (light rnd i) = ''light-'' @ show_int (int i) \<and> item_type (light rnd i) \<noteq> photo"
  by (simp add: light_def Let_def)

lemma items_not_photo:
  assumes "it \<in> set (items rnd)"
  shows "item_id it \<noteq> photo_id k \<and> item_type it \<noteq> photo"
  using assms ornament_id_type[of rnd] foil_id_type[of rnd] ribbonWhite_id_type[of rnd]
    ribbonBlue_id_type[of rnd] light_id_type[of rnd]
  by (auto simp: items_def photo_id_def)

lemma length_photoItems: "length (photoItems ps rnd) = length ps"
  by (simp add: photoItems_def)

lemma photoItems_nth:
  "i < length ps \<Longrightarrow> photoItems ps rnd ! i = photoItem (length ps) rnd i (ps ! i)"
  by (simp add: photoItems_def)

lemma photoItems_type: "it \<in> set (photoItems ps rnd) \<Longrightarrow> item_type it = photo"
  by (auto simp: photoItems_def photoItem_def Let_def)

lemma photoItems_has_id:
  "(\<exists>it \<in> set (photoItems ps rnd). item_id it = photo_id (int k)) \<longleftrightarrow> k < length ps"
proof
  assume "\<exists>it \<in> set (photoItems ps rnd). item_id it = photo_id (int k)"
  then obtain i where "i < length ps" and "photo_id (int i) = photo_id (int k)"
    by (auto simp: photoItems_def photoItem_def Let_def)
  then show "k < length ps" using photo_id_inj by blast
next
  assume k: "k < length ps"
  then have "photoItems ps rnd ! k \<in> set (photoItems ps rnd)"
    by (simp add: length_photoItems)
  moreover have "item_id (photoItems ps rnd ! k) = photo_id (int k)"
    using k by (simp add: photoItems_nth photoItem_def Let_def)
  ultimately show "\<exists>it \<in> set (photoItems ps rnd). item_id it = photo_id (int k)" by blast
qed

lemma allItems_non_photo:
  "filter (\<lambda>it. item_type it \<noteq> photo) (allItems (items r0) ps rnd) = items r0"
proof -
  have "filter (\<lambda>it. item_type it \<noteq> photo) (items r0) = items r0"
    using items_not_photo by (simp add: filter_id_conv)
  moreover have "filter (\<lambda>it. item_type it \<noteq> photo) (photoItems ps rnd) = []"
    using photoItems_type by (simp add: filter_empty_conv)
  ultimately show ?thesis by (simp add: allItems_def)
qed

lemma allItems_has_id:
  "(\<exists>it \<in> set (allItems (items r0) ps rnd). item_id it = photo_id (int k)) \<longleftrightarrow> k < length ps"
  using photoItems_has_id[of ps rnd k] items_not_photo[of _ r0 "int k"]
  by (auto simp: allItems_def)

text \<open>
  Claim C8. Whatever the photo collection, the regenerated list \<open>allItems\<close> begins with
  the memoised non-photo items, unchanged in every field, and these are exactly its
  non-photo items, so two collections give the same non-photo subset; the photo item built
  from collection index \<open>i\<close> has the id \<open>photo-i\<close>; and an item with the id \<open>photo-k\<close>
  exists in the list if and only if \<open>k\<close> is less than the photo count.
\<close>

theorem photo_regeneration:
  "take (length (items r0)) (allItems (items r0) ps rnd) = items r0
   \<and> filter (\<lambda>it. item_type it \<noteq> photo) (allItems (items r0) ps rnd) = items r0
   \<and> filter (\<lambda>it. item_type it \<noteq> photo) (allItems (items r0) ps rnd)
       = filter (\<lambda>it. item_type it \<noteq> photo) (allItems (items r0) ps' rnd')
   \<and> (i < length ps \<longrightarrow>
         allItems (items r0) ps rnd ! (length (items r0) + i) = photoItems ps rnd ! i
         \<and> item_id (photoItems ps rnd ! i) = photo_id (int i)
         \<and> textureUrl (photoItems ps rnd ! i) = Some (ps ! i))
   \<and> ((\<exists>it \<in> set (allItems (items r0) ps rnd). item_id it = photo_id (int k))
        \<longleftrightarrow> k < length ps)"
proof -
  have "i < length ps \<longrightarrow>
         allItems (items r0) ps rnd ! (length (items r0) + i) = photoItems ps rnd ! i
         \<and> item_id (photoItems ps rnd ! i) = photo_id (int i)
         \<and> textureUrl (photoItems ps rnd ! i) = Some (ps ! i)"
    by (simp add: allItems_def photoItems_nth photoItem_def Let_def)
  moreover have "take (length (items r0)) (allItems (items r0) ps rnd) = items r0"
    by (simp add: allItems_def)
  ultimately show ?thesis
    using allItems_non_photo[of r0 ps rnd] allItems_non_photo[of r0 ps' rnd']
      allItems_has_id[of r0 ps rnd k]
    by simp
qed

theorem photo_regeneration_witness:
  "(1::nat) < length [''a.png'', ''b.png'']
   \<and> item_id (photoItems [''a.png'', ''b.png''] (\<lambda>k. 1/4) ! 1) = ''photo-1''
   \<and> textureUrl (photoItems [''a.png'', ''b.png''] (\<lambda>k. 1/4) ! 1) = Some ''b.png''
   \<and> (\<exists>it \<in> set (allItems (items (\<lambda>k. 1/4)) [''a.png'', ''b.png''] (\<lambda>k. 1/4)).
         item_id it = ''photo-1'')
   \<and> \<not> (\<exists>it \<in> set (allItems (items (\<lambda>k. 1/4)) [''a.png''] (\<lambda>k. 3/4)).
           item_id it = ''photo-1'')
   \<and> filter (\<lambda>it. item_type it \<noteq> photo)
        (allItems (items (\<lambda>k. 1/4)) [''a.png'', ''b.png''] (\<lambda>k. 1/4))
       = filter (\<lambda>it. item_type it \<noteq> photo)
           (allItems (items (\<lambda>k. 1/4)) [''a.png''] (\<lambda>k. 3/4))"
  using photo_regeneration[of "\<lambda>k. 1/4" "[''a.png'', ''b.png'']" "\<lambda>k. 1/4"
          "[''a.png'']" "\<lambda>k. 3/4" 1 1]
    photo_regeneration[of "\<lambda>k. 1/4" "[''a.png'']" "\<lambda>k. 3/4"
          "[''a.png'']" "\<lambda>k. 3/4" 0 1]
  by (simp add: photo_id_1[symmetric])

end
